theory Spec2Isabelle
  imports Complex_Main "HOL-Library.AList"
begin

section \<open>Python values, errors and dictionaries\<close>

text \<open>
  The exceptions raised in \<^verbatim>\<open>_process.py\<close> and \<^verbatim>\<open>_pm2.py\<close>. Each constructor is a
  Python exception class and carries the text (or the key) the exception is built from.
  \<open>UndefinedProcess\<close> is the module's own subclass of \<open>AttributeError\<close>; \<open>NonFinite\<close>
  stands for a division by zero, whose numpy and sympy results (inf, nan, zoo) are no
  real numbers.
\<close>

datatype error =
    AttributeError string
  | TypeError string
  | ValueError string
  | KeyError string
  | IndexError
  | RuntimeError string
  | UndefinedProcess string
  | ReadOnlyError string
  | NonFinite

text \<open>
  A Python \<^verbatim>\<open>dict\<close> keeps its keys in insertion order, and assigning to an existing key
  replaces the value where the key already stands. That is \<open>AList.update\<close> on an
  association list.
\<close>

type_synonym 'v pydict = "(string \<times> 'v) list"

definition dict_update :: "'v pydict \<Rightarrow> 'v pydict \<Rightarrow> 'v pydict" where
  "dict_update d other = fold (\<lambda>(k, v). AList.update k v) other d"

definition dict_of :: "(string \<times> 'v) list \<Rightarrow> 'v pydict" where
  "dict_of kvs = dict_update [] kvs"

fun mapM :: "('a \<Rightarrow> error + 'b) \<Rightarrow> 'a list \<Rightarrow> error + 'b list" where
  "mapM f [] = Inr []"
| "mapM f (x # xs) =
     (case f x of
        Inl e \<Rightarrow> Inl e
      | Inr y \<Rightarrow> (case mapM f xs of Inl e \<Rightarrow> Inl e | Inr ys \<Rightarrow> Inr (y # ys)))"

fun foldM :: "('a \<Rightarrow> 's \<Rightarrow> error + 's) \<Rightarrow> 'a list \<Rightarrow> 's \<Rightarrow> error + 's" where
  "foldM f [] s = Inr s"
| "foldM f (x # xs) s = (case f x s of Inl e \<Rightarrow> Inl e | Inr s' \<Rightarrow> foldM f xs s')"

section \<open>Components and the component registry\<close>

text \<open>
  A component is identified by its ID and carries its conversion factors: \<open>cmp_i c\<close> maps
  the name of a quantity (\<open>COD\<close>, \<open>N\<close>, ...) to the factor \<open>i_COD\<close>, \<open>i_N\<close>, ... of \<open>c\<close>.
  A registry is the ordered list of its components.
\<close>

record component =
  cmp_ID :: string
  cmp_i :: "(string \<times> real) list"

type_synonym components = "component list"

definition cmps_IDs :: "components \<Rightarrow> string list" where
  "cmps_IDs cmps = map cmp_ID cmps"

text \<open>
  Modelled from the spec: the class \<^verbatim>\<open>Components\<close> is imported by \<^verbatim>\<open>_process.py\<close> and is not
  among the sources. The spec gives the registry "the ability to construct a merged
  registry from a list of components (de-duplicated by ID)", the union being taken "in
  first-seen order", and an \<open>index\<close> lookup by ID. \<open>Components\<close> builds the merged
  registry, \<open>cmps_index\<close> is its \<^verbatim>\<open>_index\<close> table after \<^verbatim>\<open>compile()\<close>.
\<close>

definition Components :: "component list \<Rightarrow> components" where
  "Components cs =
     fold (\<lambda>c acc. if cmp_ID c \<in> set (cmps_IDs acc) then acc else acc @ [c]) cs []"

definition cmps_index :: "components \<Rightarrow> string \<Rightarrow> nat option" where
  "cmps_index cmps = map_of (zip (cmps_IDs cmps) [0..<length cmps])"

section \<open>Process\<close>

text \<open>
  The stored stoichiometry is either a numpy array (every coefficient numeric) or a Python
  list (some coefficient symbolic). Coefficients and rate expressions are modelled by
  real numbers: a float by the real it denotes, a sympy expression by its value at a fixed
  valuation of its symbols. \<open>oid\<close> is the identity of the Python object; the class defines
  neither \<^verbatim>\<open>__eq__\<close> nor \<^verbatim>\<open>__hash__\<close>, so two processes are the same dictionary key exactly
  when they are the same object.
\<close>

datatype stoich = NDArray "real list" | PyList "real list"

fun coeffs :: "stoich \<Rightarrow> real list" where
  "coeffs (NDArray v) = v"
| "coeffs (PyList v) = v"

record process =
  oid :: nat
  p_ID :: string
  p_stoichiometry :: stoich
  p_components :: components
  p_ref_component :: string
  p_conserved_for :: "string list"
  p_parameters :: "string pydict"
  p_rate_equation :: real

text \<open>The property \<^verbatim>\<open>Process.stoichiometry\<close>: component ID to nonzero coefficient.\<close>

definition Process_stoichiometry :: "process \<Rightarrow> real pydict" where
  "Process_stoichiometry p =
     (let allcmps = dict_of (zip (cmps_IDs (p_components p)) (coeffs (p_stoichiometry p)))
      in filter (\<lambda>(k, v). v \<noteq> 0) allcmps)"

section \<open>Processes and CompiledProcesses\<close>

text \<open>
  An object of class \<^verbatim>\<open>Processes\<close> or \<^verbatim>\<open>CompiledProcesses\<close> keeps everything in its
  \<^verbatim>\<open>__dict__\<close>: the member processes under their IDs and, once compiled, the derived
  attributes. \<open>pyval\<close> is the type of the values found there. A table of parameters maps
  each name to its sympy symbol (\<open>VParams\<close>, as \<^verbatim>\<open>_compile\<close> builds it) or, once values have
  been written into it, to a symbol or a number (\<open>VValues\<close>).
\<close>

datatype matrix = NDArray2 "real list list" | ListOfLists "real list list"

fun rows :: "matrix \<Rightarrow> real list list" where
  "rows (NDArray2 m) = m"
| "rows (ListOfLists m) = m"

datatype pval = Sym string | Num real

datatype pyval =
    VProcess process
  | VTuple "process list"
  | VInt nat
  | VStrs "string list"
  | VIndex "nat pydict"
  | VComponents components
  | VParams "string pydict"
  | VMatrix matrix
  | VExprs "real list"
  | VMethod string
  | VValues "pval pydict"
  | VNone

text \<open>\<^verbatim>\<open>i.ID\<close>: only a \<^verbatim>\<open>Process\<close> has the attribute.\<close>

fun getattr_ID :: "pyval \<Rightarrow> error + string" where
  "getattr_ID (VProcess p) = Inr (p_ID p)"
| "getattr_ID _ = Inl (AttributeError ''ID'')"

fun as_process :: "pyval \<Rightarrow> error + process" where
  "as_process (VProcess p) = Inr p"
| "as_process _ = Inl (AttributeError ''ID'')"

text \<open>
  The loop \<^verbatim>\<open>for i in processes: setfield(self, i.ID, i)\<close> of \<^verbatim>\<open>Processes.__new__\<close> and
  \<^verbatim>\<open>CompiledProcesses.__new__\<close>, on the \<^verbatim>\<open>__dict__\<close> of the new object.
\<close>

fun setfields :: "pyval list \<Rightarrow> pyval pydict \<Rightarrow> error + pyval pydict" where
  "setfields [] d = Inr d"
| "setfields (i # rest) d =
     (case getattr_ID i of
        Inl e \<Rightarrow> Inl e
      | Inr k \<Rightarrow> setfields rest (AList.update k i d))"

definition Processes_new :: "pyval list \<Rightarrow> error + pyval pydict" where
  "Processes_new processes = setfields processes []"

text \<open>\<^verbatim>\<open>Matrix(M_stch).T * Matrix(rate_eqs)\<close>, on lists of rows.\<close>

definition ncols :: "real list list \<Rightarrow> nat" where
  "ncols M = (case M of [] \<Rightarrow> 0 | r # _ \<Rightarrow> length r)"

definition transpose_m :: "real list list \<Rightarrow> real list list" where
  "transpose_m M = map (\<lambda>j. map (\<lambda>r. r ! j) M) [0..<ncols M]"

definition mat_vec :: "real list list \<Rightarrow> real list \<Rightarrow> real list" where
  "mat_vec A v = map (\<lambda>r. sum_list (map2 (*) r v)) A"

text \<open>
  One row of the matrix: \<^verbatim>\<open>stch = [0]*cmps.size\<close>, then
  \<^verbatim>\<open>stch[j] = coeff\<close> at \<^verbatim>\<open>j = cmps._index[cmp]\<close> for every item of the sparse view.
\<close>

definition set_coeff :: "components \<Rightarrow> string \<times> real \<Rightarrow> real list \<Rightarrow> error + real list" where
  "set_coeff cmps kv stch =
     (case cmps_index cmps (fst kv) of
        None \<Rightarrow> Inl (KeyError (fst kv))
      | Some j \<Rightarrow> Inr (stch[j := snd kv]))"

definition stch_row :: "components \<Rightarrow> process \<Rightarrow> error + real list" where
  "stch_row cmps i = foldM (set_coeff cmps) (Process_stoichiometry i) (replicate (length cmps) 0)"

definition is_numeric :: "process \<Rightarrow> bool" where
  "is_numeric i = (case p_stoichiometry i of NDArray _ \<Rightarrow> True | PyList _ \<Rightarrow> False)"

text \<open>
  \<^verbatim>\<open>CompiledProcesses._compile\<close>, on the \<^verbatim>\<open>__dict__\<close> of the object. The processes are the
  values of the dictionary; reading \<^verbatim>\<open>i.ID\<close> fails on a value that is no process.
\<close>

definition CompiledProcesses_compile :: "pyval pydict \<Rightarrow> error + pyval pydict" where
  "CompiledProcesses_compile dct =
     (case mapM as_process (map snd dct) of
        Inl e \<Rightarrow> Inl e
      | Inr processes \<Rightarrow>
          let IDs = map p_ID processes;
              size = length IDs;
              index = dict_of (zip IDs [0..<size]);
              cmps = Components (concat (map p_components processes));
              rate_eqs = map p_rate_equation processes;
              all_numeric = list_all is_numeric processes;
              params = fold (\<lambda>i ps. dict_update ps (p_parameters i)) processes []
          in (case mapM (stch_row cmps) processes of
                Inl e \<Rightarrow> Inl e
              | Inr M_stch \<Rightarrow>
                  Inr (AList.update ''_production_rates''
                         (VExprs (mat_vec (transpose_m M_stch) rate_eqs))
                      (AList.update ''_rate_equations'' (VExprs rate_eqs)
                      (AList.update ''_stoichiometry''
                         (VMatrix (if all_numeric then NDArray2 M_stch else ListOfLists M_stch))
                      (AList.update ''_parameters'' (VParams params)
                      (AList.update ''_components'' (VComponents cmps)
                      (AList.update ''_index'' (VIndex index)
                      (AList.update ''IDs'' (VStrs IDs)
                      (AList.update ''size'' (VInt size)
                      (AList.update ''tuple'' (VTuple processes) dct)))))))))))"

text \<open>The dictionary of a fresh object whose fields are the given processes.\<close>

definition new_dict :: "process list \<Rightarrow> pyval pydict" where
  "new_dict processes = fold (\<lambda>i d. AList.update (p_ID i) (VProcess i) d) processes []"

text \<open>The properties of a compiled object.\<close>

definition CompiledProcesses_stoichiometry :: "pyval pydict \<Rightarrow> error + matrix" where
  "CompiledProcesses_stoichiometry d =
     (case map_of d ''_stoichiometry'' of
        Some (VMatrix m) \<Rightarrow> Inr m
      | _ \<Rightarrow> Inl (AttributeError ''_stoichiometry''))"

definition CompiledProcesses_components :: "pyval pydict \<Rightarrow> error + components" where
  "CompiledProcesses_components d =
     (case map_of d ''_components'' of
        Some (VComponents c) \<Rightarrow> Inr c
      | _ \<Rightarrow> Inl (AttributeError ''_components''))"

definition CompiledProcesses_IDs :: "pyval pydict \<Rightarrow> error + string list" where
  "CompiledProcesses_IDs d =
     (case map_of d ''IDs'' of
        Some (VStrs ids) \<Rightarrow> Inr ids
      | _ \<Rightarrow> Inl (AttributeError ''IDs''))"

definition CompiledProcesses_size :: "pyval pydict \<Rightarrow> error + nat" where
  "CompiledProcesses_size d =
     (case map_of d ''size'' of
        Some (VInt n) \<Rightarrow> Inr n
      | _ \<Rightarrow> Inl (AttributeError ''size''))"

definition CompiledProcesses_rate_equations :: "pyval pydict \<Rightarrow> error + real list" where
  "CompiledProcesses_rate_equations d =
     (case map_of d ''_rate_equations'' of
        Some (VExprs r) \<Rightarrow> Inr r
      | _ \<Rightarrow> Inl (AttributeError ''_rate_equations''))"

text \<open>\<^verbatim>\<open>dict(zip(self._components.IDs, self._production_rates))\<close>\<close>

definition CompiledProcesses_production_rates :: "pyval pydict \<Rightarrow> error + real pydict" where
  "CompiledProcesses_production_rates d =
     (case CompiledProcesses_components d of
        Inl e \<Rightarrow> Inl e
      | Inr cmps \<Rightarrow>
          (case map_of d ''_production_rates'' of
             Some (VExprs pr) \<Rightarrow> Inr (dict_of (zip (cmps_IDs cmps) pr))
           | _ \<Rightarrow> Inl (AttributeError ''_production_rates'')))"


subsection \<open>Processes: the mutable collection\<close>

text \<open>
  A method that mutates the collection returns the exception it raised, if any, together
  with the \<^verbatim>\<open>__dict__\<close> as the call left it.
\<close>

definition Processes_setitem ::
  "pyval pydict \<Rightarrow> string \<Rightarrow> pyval \<Rightarrow> error option \<times> pyval pydict" where
  "Processes_setitem d ID process =
     (Some (TypeError ''can't set attribute; use <Processes>.append instead''), d)"

definition Processes_append :: "pyval pydict \<Rightarrow> pyval \<Rightarrow> error option \<times> pyval pydict" where
  "Processes_append d process =
     (case process of
        VProcess p \<Rightarrow>
          (if p_ID p \<in> set (map fst d)
           then (Some (ValueError (p_ID p @ '' already defined in processes'')), d)
           else (None, AList.update (p_ID p) process d))
      | _ \<Rightarrow> (Some (TypeError ''only 'Process' objects can be appended''), d))"

text \<open>
  The argument of \<^verbatim>\<open>extend\<close> is either an instance of \<^verbatim>\<open>Processes\<close>, given by its
  \<^verbatim>\<open>__dict__\<close>, or any other iterable, given by the values it yields.
\<close>

datatype extend_arg = AProcesses "pyval pydict" | AIterable "pyval list"

fun append_each :: "pyval list \<Rightarrow> pyval pydict \<Rightarrow> error option \<times> pyval pydict" where
  "append_each [] d = (None, d)"
| "append_each (process # rest) d =
     (case Processes_append d process of
        (Some e, d') \<Rightarrow> (Some e, d')
      | (None, d') \<Rightarrow> append_each rest d')"

definition Processes_extend :: "pyval pydict \<Rightarrow> extend_arg \<Rightarrow> error option \<times> pyval pydict" where
  "Processes_extend d processes =
     (case processes of
        AProcesses other \<Rightarrow> (None, dict_update d other)
      | AIterable ps \<Rightarrow> append_each ps d)"

text \<open>
  \<^verbatim>\<open>getattr(self, name)\<close> on an instance of \<^verbatim>\<open>Processes\<close>: the instance dictionary first,
  then the attributes of the class body, all of them functions. The attributes every
  object inherits from \<^verbatim>\<open>object\<close> are left out.
\<close>

definition Processes_class_attrs :: "string list" where
  "Processes_class_attrs =
     [''__new__'', ''__setattr__'', ''__setitem__'', ''__getitem__'', ''copy'', ''append'',
      ''extend'', ''subgroup'', ''mycompile'', ''show'', ''_ipython_display_'', ''__len__'',
      ''__contains__'', ''__iter__'', ''__repr__'']"

definition Processes_getattr :: "pyval pydict \<Rightarrow> string \<Rightarrow> error + pyval" where
  "Processes_getattr d name =
     (case map_of d name of
        Some v \<Rightarrow> Inr v
      | None \<Rightarrow>
          (if name \<in> set Processes_class_attrs then Inr (VMethod name)
           else Inl (AttributeError name)))"

text \<open>
  \<^verbatim>\<open>Process(...)\<close>: the parameters \<^verbatim>\<open>ID\<close>, \<^verbatim>\<open>reaction\<close> and \<^verbatim>\<open>ref_component\<close> of
  \<^verbatim>\<open>Process.__init__\<close> have no default. The body of the constructor calls the equation
  parser, which is not among the sources, and is the parameter \<open>init\<close>.
\<close>

definition Process_required :: "string list" where
  "Process_required = [''ID'', ''reaction'', ''ref_component'']"

definition Process_call :: "('a list \<Rightarrow> error + process) \<Rightarrow> 'a list \<Rightarrow> error + process" where
  "Process_call init args =
     (if length args < length Process_required
      then Inl (TypeError ''__init__() missing required positional arguments'')
      else init args)"

text \<open>\<^verbatim>\<open>Processes.subgroup\<close>: \<^verbatim>\<open>return Process([getattr(self, i) for i in IDs])\<close>\<close>

definition Processes_subgroup ::
  "(pyval list list \<Rightarrow> error + process) \<Rightarrow> pyval pydict \<Rightarrow> string list \<Rightarrow> error + process" where
  "Processes_subgroup init d IDs =
     (case mapM (Processes_getattr d) IDs of
        Inl e \<Rightarrow> Inl e
      | Inr ps \<Rightarrow> Process_call init [ps])"

text \<open>
  \<^verbatim>\<open>Processes.__getitem__\<close>: a key is a string or an iterable of strings. The text of the
  \<^verbatim>\<open>KeyError\<close> names the key; for an iterable the model joins its strings.
\<close>

datatype key = KeyStr string | KeyIter "string list"

datatype item = One pyval | Many "pyval list"

definition dict_getitem :: "'v pydict \<Rightarrow> string \<Rightarrow> error + 'v" where
  "dict_getitem d k = (case map_of d k of Some v \<Rightarrow> Inr v | None \<Rightarrow> Inl (KeyError k))"

definition Processes_getitem :: "pyval pydict \<Rightarrow> key \<Rightarrow> error + item" where
  "Processes_getitem d k =
     (case k of
        KeyStr s \<Rightarrow>
          (case dict_getitem d s of
             Inl e \<Rightarrow> Inl (KeyError (''undefined process '' @ s))
           | Inr v \<Rightarrow> Inr (One v))
      | KeyIter ks \<Rightarrow>
          (case mapM (dict_getitem d) ks of
             Inl e \<Rightarrow> Inl (KeyError (''undefined process '' @ concat ks))
           | Inr vs \<Rightarrow> Inr (Many vs)))"

text \<open>An object is its class and its \<^verbatim>\<open>__dict__\<close>.\<close>

datatype pyclass = Processes | CompiledProcesses

record pobject =
  cls :: pyclass
  odict :: "pyval pydict"

text \<open>
  \<^verbatim>\<open>Processes.mycompile\<close>: the class of the object is replaced, then \<^verbatim>\<open>_compile\<close> runs on it.
\<close>

definition Processes_mycompile :: "pobject \<Rightarrow> error + pobject" where
  "Processes_mycompile self =
     (case CompiledProcesses_compile (odict self) of
        Inl e \<Rightarrow> Inl e
      | Inr d \<Rightarrow> Inr \<lparr>cls = CompiledProcesses, odict = d\<rparr>)"

text \<open>
  A call \<^verbatim>\<open>new.name()\<close> without arguments on an instance of \<^verbatim>\<open>Processes\<close>, for its effect on
  the object. An attribute found in the instance dictionary is a stored value and cannot be
  called; of the functions of the class only \<^verbatim>\<open>mycompile\<close> changes the object, and those
  with a further parameter fail for the missing argument.
\<close>

definition Processes_call0 :: "pobject \<Rightarrow> string \<Rightarrow> error + pobject" where
  "Processes_call0 new name =
     (case Processes_getattr (odict new) name of
        Inl e \<Rightarrow> Inl e
      | Inr (VMethod m) \<Rightarrow>
          (if m = ''mycompile'' then Processes_mycompile new
           else if m \<in> set [''copy'', ''show'', ''_ipython_display_'', ''__len__'', ''__iter__'',
                             ''__repr__'']
           then Inr new
           else Inl (TypeError (m @ ''() missing required positional argument'')))
      | Inr _ \<Rightarrow> Inl (TypeError ''object is not callable''))"

text \<open>
  \<^verbatim>\<open>CompiledProcesses.subgroup\<close>:
  \<^verbatim>\<open>processes = self[IDs]; new = Processes(processes); new.compile(); return new\<close>,
  for \<open>IDs\<close> an iterable of strings.
\<close>

definition CompiledProcesses_subgroup :: "pobject \<Rightarrow> string list \<Rightarrow> error + pobject" where
  "CompiledProcesses_subgroup self IDs =
     (case Processes_getitem (odict self) (KeyIter IDs) of
        Inl e \<Rightarrow> Inl e
      | Inr (One v) \<Rightarrow> Inl (TypeError ''object is not iterable'')
      | Inr (Many processes) \<Rightarrow>
          (case Processes_new processes of
             Inl e \<Rightarrow> Inl e
           | Inr d \<Rightarrow> Processes_call0 \<lparr>cls = Processes, odict = d\<rparr> ''compile''))"

text \<open>
  \<^verbatim>\<open>CompiledProcesses.copy\<close>: \<^verbatim>\<open>copy = Processes(self); copy.mycompile(); return copy\<close>.
  Iterating over \<open>self\<close> is \<^verbatim>\<open>Processes.__iter__\<close>, which yields the values of the
  \<^verbatim>\<open>__dict__\<close>.
\<close>

definition Processes_iter :: "pobject \<Rightarrow> pyval list" where
  "Processes_iter self = map snd (odict self)"

definition CompiledProcesses_copy :: "pobject \<Rightarrow> error + pobject" where
  "CompiledProcesses_copy self =
     (case Processes_new (Processes_iter self) of
        Inl e \<Rightarrow> Inl e
      | Inr d \<Rightarrow> Processes_mycompile \<lparr>cls = Processes, odict = d\<rparr>)"

subsection \<open>The read-only methods of CompiledProcesses\<close>

text \<open>
  Modelled from the spec: the decorator \<^verbatim>\<open>read_only\<close> is imported from \<^verbatim>\<open>thermosteam.utils\<close>
  and is not among the sources. By the spec, "once compiled, \<^verbatim>\<open>append\<close>, \<^verbatim>\<open>extend\<close>, and direct
  item assignment must fail with an explicit read-only error": the decorator replaces the
  named methods of the class by one that raises at once, \<open>deny\<close>.
\<close>

definition read_only_methods :: "string list" where
  "read_only_methods = [''append'', ''extend'', ''__setitem__'']"

definition deny :: "pobject \<Rightarrow> error option \<times> pobject" where
  "deny self = (Some (ReadOnlyError ''object is read-only''), self)"

datatype call = Append pyval | Extend extend_arg | SetItem string pyval

fun method_name :: "call \<Rightarrow> string" where
  "method_name (Append _) = ''append''"
| "method_name (Extend _) = ''extend''"
| "method_name (SetItem _ _) = ''__setitem__''"

text \<open>
  Method lookup: \<^verbatim>\<open>CompiledProcesses\<close> inherits from \<^verbatim>\<open>Processes\<close> every method its class
  body and its decorator do not replace.
\<close>

definition invoke :: "pobject \<Rightarrow> call \<Rightarrow> error option \<times> pobject" where
  "invoke self c =
     (if cls self = CompiledProcesses \<and> method_name c \<in> set read_only_methods then deny self
      else (case c of
              Append p \<Rightarrow> (case Processes_append (odict self) p of (r, d) \<Rightarrow> (r, self\<lparr>odict := d\<rparr>))
            | Extend a \<Rightarrow> (case Processes_extend (odict self) a of (r, d) \<Rightarrow> (r, self\<lparr>odict := d\<rparr>))
            | SetItem k v \<Rightarrow>
                (case Processes_setitem (odict self) k v of (r, d) \<Rightarrow> (r, self\<lparr>odict := d\<rparr>))))"

subsection \<open>Index lookup\<close>

definition CompiledProcesses_index :: "pyval pydict \<Rightarrow> string \<Rightarrow> error + nat" where
  "CompiledProcesses_index d ID =
     (case map_of d ''_index'' of
        Some (VIndex ix) \<Rightarrow>
          (case dict_getitem ix ID of
             Inl e \<Rightarrow> Inl (UndefinedProcess ID)
           | Inr i \<Rightarrow> Inr i)
      | _ \<Rightarrow> Inl (AttributeError ''_index''))"

text \<open>
  \<^verbatim>\<open>indices\<close>: the list comprehension stops at the first missing key, and the argument of
  the \<^verbatim>\<open>KeyError\<close> caught is that key.
\<close>

definition CompiledProcesses_indices :: "pyval pydict \<Rightarrow> string list \<Rightarrow> error + nat list" where
  "CompiledProcesses_indices d IDs =
     (case map_of d ''_index'' of
        Some (VIndex ix) \<Rightarrow>
          (case mapM (dict_getitem ix) IDs of
             Inl (KeyError k) \<Rightarrow> Inl (UndefinedProcess k)
           | Inl e \<Rightarrow> Inl e
           | Inr ns \<Rightarrow> Inr ns)
      | _ \<Rightarrow> Inl (AttributeError ''_index''))"

subsection \<open>The compilation cache\<close>





section \<open>Process: conservation check and reference component\<close>

text \<open>
  Attribute lookup on a \<^verbatim>\<open>Process\<close>: the instance attributes are those \<^verbatim>\<open>__init__\<close> and
  \<^verbatim>\<open>_parse_rate_eq\<close> assign. The class body defines no attribute whose name starts with
  \<^verbatim>\<open>_con\<close>, and \<^verbatim>\<open>chemicals_user\<close> adds \<^verbatim>\<open>_load_chemicals\<close> and \<^verbatim>\<open>chemicals\<close> only.
\<close>

datatype attr =
    AStr string
  | AStoich stoich
  | AComponents components
  | AStrs "string list"
  | AParams "string pydict"
  | AExpr real

definition Process_getattr :: "process \<Rightarrow> string \<Rightarrow> error + attr" where
  "Process_getattr p name =
     (if name = ''_ID'' then Inr (AStr (p_ID p))
      else if name = ''_stoichiometry'' then Inr (AStoich (p_stoichiometry p))
      else if name = ''_components'' then Inr (AComponents (p_components p))
      else if name = ''_ref_component'' then Inr (AStr (p_ref_component p))
      else if name = ''_conserved_for'' then Inr (AStrs (p_conserved_for p))
      else if name = ''_parameters'' then Inr (AParams (p_parameters p))
      else if name = ''_rate_equation'' then Inr (AExpr (p_rate_equation p))
      else Inl (AttributeError name))"

text \<open>\<^verbatim>\<open>getattr(cmps, 'i_' + c)\<close>: the factor of every component for the quantity \<open>c\<close>.\<close>

definition cmps_i :: "components \<Rightarrow> string \<Rightarrow> error + real list" where
  "cmps_i cmps c =
     mapM (\<lambda>x. case map_of (cmp_i x) c of
                  None \<Rightarrow> Inl (AttributeError (''i_'' @ c))
                | Some f \<Rightarrow> Inr f) cmps"

text \<open>
  \<^verbatim>\<open>get_conversion_factors\<close>: one quantity gives a vector, several are stacked into a
  matrix, none gives \<^verbatim>\<open>None\<close>. The flag \<^verbatim>\<open>as_matrix\<close> changes the container only.
\<close>

datatype factors = Vec "real list" | Mat "real list list"

definition Process_get_conversion_factors :: "process \<Rightarrow> bool \<Rightarrow> error + factors option" where
  "Process_get_conversion_factors self as_matrix =
     (case Process_getattr self ''_conservation_for'' of
        Inl e \<Rightarrow> Inl e
      | Inr (AStrs []) \<Rightarrow> Inr None
      | Inr (AStrs [c]) \<Rightarrow>
          (case cmps_i (p_components self) c of Inl e \<Rightarrow> Inl e | Inr arr \<Rightarrow> Inr (Some (Vec arr)))
      | Inr (AStrs cs) \<Rightarrow>
          (case mapM (cmps_i (p_components self)) cs of
             Inl e \<Rightarrow> Inl e
           | Inr arr \<Rightarrow> Inr (Some (Mat arr)))
      | Inr _ \<Rightarrow> Inl (TypeError ''_conservation_for''))"

definition dot :: "real list \<Rightarrow> real list \<Rightarrow> error + real" where
  "dot a b =
     (if length a = length b then Inr (sum_list (map2 (*) a b))
      else Inl (ValueError ''shapes not aligned''))"

text \<open>\<^verbatim>\<open>np.isclose(x, 0, atol=tol)\<close>: the relative tolerance is multiplied by zero.\<close>

definition isclose0 :: "real \<Rightarrow> real \<Rightarrow> bool" where
  "isclose0 tol x = (\<bar>x\<bar> \<le> tol)"

text \<open>
  \<^verbatim>\<open>check_conservation\<close>. \<open>Unconserved\<close> is the \<^verbatim>\<open>RuntimeError\<close> whose text lists each
  unconserved material with its value. For a single quantity the product is a scalar, and
  enumerating the scalar \<^verbatim>\<open>conserved_arr\<close> fails.
\<close>

datatype outcome = Conserved | Raised error | Unconserved "(string \<times> real) list"

definition Process_check_conservation :: "process \<Rightarrow> real \<Rightarrow> outcome" where
  "Process_check_conservation self tol =
     (case p_stoichiometry self of
        NDArray v \<Rightarrow>
          (case Process_get_conversion_factors self False of
             Inl e \<Rightarrow> Raised e
           | Inr None \<Rightarrow> Raised (TypeError ''unsupported operand type(s) for @'')
           | Inr (Some (Vec ic)) \<Rightarrow>
               (case dot ic v of
                  Inl e \<Rightarrow> Raised e
                | Inr ic_dot_v \<Rightarrow>
                    if isclose0 tol ic_dot_v then Conserved
                    else Raised (TypeError ''object is not iterable''))
           | Inr (Some (Mat ic)) \<Rightarrow>
               (case mapM (\<lambda>r. dot r v) ic of
                  Inl e \<Rightarrow> Raised e
                | Inr ic_dot_v \<Rightarrow>
                    if list_all (isclose0 tol) ic_dot_v then Conserved
                    else Unconserved
                           (map (\<lambda>i. (p_conserved_for self ! i, ic_dot_v ! i))
                              (filter (\<lambda>i. \<not> isclose0 tol (ic_dot_v ! i))
                                 [0..<length ic_dot_v]))))
      | PyList _ \<Rightarrow>
          Raised (RuntimeError
            ''Can only check conservations with numerical stoichiometric coefficients.''))"

text \<open>
  \<^verbatim>\<open>_normalize_stoichiometry\<close>, \<^verbatim>\<open>_normalize_rate_eq\<close> and the setter of \<^verbatim>\<open>ref_component\<close>.
  \<^verbatim>\<open>self._components._index[new_ref]\<close> is the position of the component in the registry of
  the process.
\<close>

definition coeff_at :: "process \<Rightarrow> string \<Rightarrow> error + real" where
  "coeff_at self new_ref =
     (case cmps_index (p_components self) new_ref of
        None \<Rightarrow> Inl (KeyError new_ref)
      | Some j \<Rightarrow>
          (if j < length (coeffs (p_stoichiometry self))
           then Inr (coeffs (p_stoichiometry self) ! j)
           else Inl IndexError))"

definition Process_normalize_stoichiometry :: "process \<Rightarrow> string \<Rightarrow> error + process" where
  "Process_normalize_stoichiometry self new_ref =
     (case coeff_at self new_ref of
        Inl e \<Rightarrow> Inl e
      | Inr c \<Rightarrow>
          let factor = \<bar>c\<bar> in
          if factor = 0 then Inl NonFinite
          else Inr (self\<lparr>p_stoichiometry :=
                 (case p_stoichiometry self of
                    NDArray v \<Rightarrow> NDArray (map (\<lambda>x. x / factor) v)
                  | PyList v \<Rightarrow> PyList (map (\<lambda>x. x / factor) v))\<rparr>))"

definition Process_normalize_rate_eq :: "process \<Rightarrow> string \<Rightarrow> error + process" where
  "Process_normalize_rate_eq self new_ref =
     (case coeff_at self new_ref of
        Inl e \<Rightarrow> Inl e
      | Inr factor \<Rightarrow> Inr (self\<lparr>p_rate_equation := p_rate_equation self * factor\<rparr>))"

definition Process_set_ref_component :: "process \<Rightarrow> string \<Rightarrow> error + process" where
  "Process_set_ref_component self ref_cmp =
     (if ref_cmp \<noteq> []
      then (case Process_normalize_stoichiometry (self\<lparr>p_ref_component := ref_cmp\<rparr>) ref_cmp of
              Inl e \<Rightarrow> Inl e
            | Inr self' \<Rightarrow> Process_normalize_rate_eq self' ref_cmp)
      else Inr self)"

text \<open>
  The net production of every component by one process: its coefficient times the rate
  of the process.
\<close>

definition net_production :: "process \<Rightarrow> real list" where
  "net_production p = map (\<lambda>c. c * p_rate_equation p) (coeffs (p_stoichiometry p))"

section \<open>PM2: setting parameters\<close>

text \<open>
  \<^verbatim>\<open>PM2\<close> is a subclass of the \<^verbatim>\<open>CompiledProcesses\<close> above, and like every such object a
  model is its \<^verbatim>\<open>__dict__\<close>. \<^verbatim>\<open>PM2.__new__\<close> starts with \<^verbatim>\<open>Processes.load_from_file\<close>, which
  \<^verbatim>\<open>Processes\<close> does not define, so a model is an object of class \<^verbatim>\<open>PM2\<close> that the inherited
  \<^verbatim>\<open>CompiledProcesses.__new__\<close> compiled, possibly after earlier calls of \<^verbatim>\<open>set_parameters\<close>.
  The keyword arguments of a call are a dictionary from names to numbers; a number is only
  stored, never computed with.
\<close>

definition shared_params :: "string list" where
  "shared_params =
     [''Y_CH_PHO'', ''Y_LI_PHO'', ''Y_X_ALG_PHO'',
      ''Y_CH_NR_HET_ACE'', ''Y_LI_NR_HET_ACE'', ''Y_X_ALG_HET_ACE'',
      ''Y_CH_NR_HET_GLU'', ''Y_LI_NR_HET_GLU'', ''Y_X_ALG_HET_GLU'']"

definition stoichio_params :: "string list" where
  "stoichio_params =
     [''Y_CH_ND_HET_ACE'', ''Y_LI_ND_HET_ACE'', ''Y_CH_ND_HET_GLU'', ''Y_LI_ND_HET_GLU'']
     @ shared_params"

text \<open>
  \<^verbatim>\<open>self._parameters.update(stoichio_only)\<close>: the value stored under \<^verbatim>\<open>_parameters\<close> is a
  dictionary; any other value has no method \<^verbatim>\<open>update\<close>.
\<close>

definition params_table :: "pyval \<Rightarrow> error + pval pydict" where
  "params_table v =
     (case v of
        VParams t \<Rightarrow> Inr (map (\<lambda>(k, s). (k, Sym s)) t)
      | VValues t \<Rightarrow> Inr t
      | _ \<Rightarrow> Inl (AttributeError ''update''))"

definition update_table :: "pval pydict \<Rightarrow> (string \<times> real) list \<Rightarrow> pval pydict" where
  "update_table t stoichio_only = dict_update t (map (\<lambda>(k, x). (k, Num x)) stoichio_only)"

text \<open>
  The properties \<^verbatim>\<open>Th_Q_N_min\<close> and \<^verbatim>\<open>Th_Q_P_min\<close> read
  \<^verbatim>\<open>self.stoichiometry.loc[...]\<close>. The property \<^verbatim>\<open>stoichiometry\<close> of \<^verbatim>\<open>CompiledProcesses\<close>
  returns the stored matrix, a list of lists or a numpy array, and neither has an attribute
  \<^verbatim>\<open>loc\<close>: reading the bound raises, and the product with \<open>1.001\<close> is never computed. The
  value of each function is the exception raised.
\<close>

definition matrix_loc :: "matrix \<Rightarrow> string \<Rightarrow> string \<Rightarrow> error" where
  "matrix_loc m process cmp = AttributeError ''loc''"

definition PM2_Th_Q_N_min :: "pyval pydict \<Rightarrow> error" where
  "PM2_Th_Q_N_min d =
     (case CompiledProcesses_stoichiometry d of
        Inl e \<Rightarrow> e
      | Inr m \<Rightarrow> matrix_loc m ''growth_pho'' ''X_N_ALG'')"

definition PM2_Th_Q_P_min :: "pyval pydict \<Rightarrow> error" where
  "PM2_Th_Q_P_min d =
     (case CompiledProcesses_stoichiometry d of
        Inl e \<Rightarrow> e
      | Inr m \<Rightarrow> matrix_loc m ''growth_pho'' ''X_P_ALG'')"

text \<open>
  \<^verbatim>\<open>self.rate_function.set_param(**parameters)\<close>: no class defines \<^verbatim>\<open>rate_function\<close>, so the
  attribute exists only as a member process of that ID, which has no \<^verbatim>\<open>set_param\<close>.
\<close>

definition rate_function_set_param :: "pyval pydict \<Rightarrow> error" where
  "rate_function_set_param d =
     (case map_of d ''rate_function'' of
        None \<Rightarrow> AttributeError ''rate_function''
      | Some v \<Rightarrow> AttributeError ''set_param'')"

text \<open>
  \<^verbatim>\<open>PM2.set_parameters\<close>, statement by statement: the stoichiometric parameters of the call
  are written into the table; \<^verbatim>\<open>self._stoichio_lambdified\<close> is read, an attribute that
  \<^verbatim>\<open>_compile\<close> does not create and no class defines, and reset when it is there; the bounds
  are read for a given \<open>Q_N_min\<close> and \<open>Q_P_min\<close>; the rate function is called. The result
  is the exception raised, if any, and the \<^verbatim>\<open>__dict__\<close> as the call left it.
\<close>

definition PM2_set_parameters ::
  "pyval pydict \<Rightarrow> (string \<times> real) list \<Rightarrow> error option \<times> pyval pydict" where
  "PM2_set_parameters d parameters =
     (let stoichio_only = filter (\<lambda>(k, v). k \<in> set stoichio_params) parameters in
      case map_of d ''_parameters'' of
        None \<Rightarrow> (Some (AttributeError ''_parameters''), d)
      | Some v \<Rightarrow>
          (case params_table v of
             Inl e \<Rightarrow> (Some e, d)
           | Inr t \<Rightarrow>
               let d1 = AList.update ''_parameters'' (VValues (update_table t stoichio_only)) d in
               (case map_of d1 ''_stoichio_lambdified'' of
                  None \<Rightarrow> (Some (AttributeError ''_stoichio_lambdified''), d1)
                | Some l \<Rightarrow>
                    let d2 = (if l \<noteq> VNone then AList.update ''_stoichio_lambdified'' VNone d1
                              else d1)
                    in if ''Q_N_min'' \<in> set (map fst parameters)
                       then (Some (PM2_Th_Q_N_min d2), d2)
                       else if ''Q_P_min'' \<in> set (map fst parameters)
                       then (Some (PM2_Th_Q_P_min d2), d2)
                       else (Some (rate_function_set_param d2), d2))))"

section \<open>Example inputs\<close>

text \<open>
  Three components and two processes over the registries \<open>{A, B}\<close> and \<open>{B, C}\<close>, as in the
  example scenario of the specification; the first process conserves both of its
  quantities.
\<close>

definition cmp_A :: component where
  "cmp_A = \<lparr>cmp_ID = ''A'', cmp_i = [(''COD'', 1), (''N'', 1/2)]\<rparr>"

definition cmp_B :: component where
  "cmp_B = \<lparr>cmp_ID = ''B'', cmp_i = [(''COD'', 1), (''N'', 1/2)]\<rparr>"

definition cmp_C :: component where
  "cmp_C = \<lparr>cmp_ID = ''C'', cmp_i = [(''COD'', 2), (''N'', 0)]\<rparr>"

definition ex_p1 :: process where
  "ex_p1 = \<lparr>oid = 1, p_ID = ''p1'', p_stoichiometry = NDArray [-1, 1],
            p_components = [cmp_A, cmp_B], p_ref_component = ''B'',
            p_conserved_for = [''COD'', ''N''], p_parameters = [],
            p_rate_equation = 2\<rparr>"

definition ex_p2 :: process where
  "ex_p2 = \<lparr>oid = 2, p_ID = ''p2'', p_stoichiometry = NDArray [-2, 1],
            p_components = [cmp_B, cmp_C], p_ref_component = ''C'',
            p_conserved_for = [''COD''], p_parameters = [],
            p_rate_equation = 3\<rparr>"

text \<open>
  A process for the reaction \<open>C -> 2 A\<close> with reference \<open>C\<close> and rate 3; it conserves
  \<open>COD\<close>.
\<close>

definition ex_p3 :: process where
  "ex_p3 = \<lparr>oid = 3, p_ID = ''p3'', p_stoichiometry = NDArray [2, -1],
            p_components = [cmp_A, cmp_C], p_ref_component = ''C'',
            p_conserved_for = [''COD''], p_parameters = [],
            p_rate_equation = 3\<rparr>"




section \<open>Properties\<close>

subsection \<open>Dictionaries and loops that may raise\<close>

lemma fst_dict_update: "fst ` set (dict_update d other) = fst ` set d \<union> fst ` set other"
  unfolding dict_update_def
  by (induction other arbitrary: d) (auto simp: AList.dom_update split: prod.splits)

lemma distinct_dict_update: "distinct (map fst d) \<Longrightarrow> distinct (map fst (dict_update d other))"
  unfolding dict_update_def
  by (induction other arbitrary: d) (auto simp: AList.distinct_update split: prod.splits)

lemma distinct_dict_of: "distinct (map fst (dict_of kvs))"
  by (simp add: dict_of_def distinct_dict_update)

lemma fst_dict_of: "fst ` set (dict_of kvs) = fst ` set kvs"
  by (simp add: dict_of_def fst_dict_update)

lemma mapM_Inr_map: "mapM f (map g xs) = Inr xs" if "\<And>x. f (g x) = Inr x"
  using that by (induction xs) auto

lemma mapM_length: "mapM f xs = Inr ys \<Longrightarrow> length ys = length xs"
  by (induction xs arbitrary: ys) (auto split: sum.splits)

lemma mapM_all:
  "mapM f xs = Inr ys \<Longrightarrow> \<forall>i<length xs. f (xs ! i) = Inr (ys ! i)"
  by (induction xs arbitrary: ys) (auto split: sum.splits simp: nth_Cons')

lemma mapM_total:
  "(\<And>x. x \<in> set xs \<Longrightarrow> \<exists>y. f x = Inr y) \<Longrightarrow> \<exists>ys. mapM f xs = Inr ys"
  by (induction xs) (fastforce split: sum.splits)+

lemma update_procs_inv:
  "\<exists>qs. d = map (\<lambda>q. (p_ID q, VProcess q)) qs \<Longrightarrow>
   \<exists>qs. AList.update (p_ID i) (VProcess i) d = map (\<lambda>q. (p_ID q, VProcess q)) qs"
proof (induction d)
  case Nil
  show ?case by (rule exI[of _ "[i]"]) simp
next
  case (Cons a d)
  then obtain q qs where a: "a = (p_ID q, VProcess q)" and d: "d = map (\<lambda>q. (p_ID q, VProcess q)) qs"
    by auto
  show ?case
  proof (cases "p_ID q = p_ID i")
    case True
    show ?thesis by (rule exI[of _ "i # qs"]) (simp add: a d True)
  next
    case False
    from Cons.IH d obtain rs where "AList.update (p_ID i) (VProcess i) d = map (\<lambda>q. (p_ID q, VProcess q)) rs"
      by blast
    then show ?thesis by (intro exI[of _ "q # rs"]) (simp add: a False)
  qed
qed

lemma new_dict_procs_gen:
  "\<exists>qs. d = map (\<lambda>q. (p_ID q, VProcess q)) qs \<Longrightarrow>
   \<exists>qs. fold (\<lambda>i d. AList.update (p_ID i) (VProcess i) d) ps d = map (\<lambda>q. (p_ID q, VProcess q)) qs"
proof (induction ps arbitrary: d)
  case Nil then show ?case by simp
next
  case (Cons p ps)
  from update_procs_inv[OF Cons.prems]
  have "\<exists>qs. AList.update (p_ID p) (VProcess p) d = map (\<lambda>q. (p_ID q, VProcess q)) qs" .
  from Cons.IH[OF this] show ?case by simp
qed

lemma new_dict_procs: "\<exists>qs. new_dict ps = map (\<lambda>q. (p_ID q, VProcess q)) qs"
  unfolding new_dict_def by (rule new_dict_procs_gen) simp

subsection \<open>The merged registry and the rows of the matrix\<close>

lemma Components_fold_IDs:
  "set (cmps_IDs (fold (\<lambda>c acc. if cmp_ID c \<in> set (cmps_IDs acc) then acc else acc @ [c]) cs acc))
     = set (cmps_IDs acc) \<union> cmp_ID ` set cs"
  by (induction cs arbitrary: acc) (auto simp: cmps_IDs_def)

lemma Components_fold_distinct:
  "distinct (cmps_IDs acc) \<Longrightarrow>
   distinct (cmps_IDs (fold (\<lambda>c acc. if cmp_ID c \<in> set (cmps_IDs acc) then acc else acc @ [c]) cs acc))"
  by (induction cs arbitrary: acc) (auto simp: cmps_IDs_def)

lemma set_Components_IDs: "set (cmps_IDs (Components cs)) = cmp_ID ` set cs"
  by (simp add: Components_def Components_fold_IDs) (simp add: cmps_IDs_def)

lemma distinct_Components_IDs: "distinct (cmps_IDs (Components cs))"
  using Components_fold_distinct[of "[]" cs] by (simp add: Components_def cmps_IDs_def)

lemma Components_Nil: "Components [] = []"
  by (simp add: Components_def)

lemma cmps_index_Some:
  "k \<in> set (cmps_IDs cmps) \<Longrightarrow> \<exists>j. cmps_index cmps k = Some j"
  unfolding cmps_index_def cmps_IDs_def
  by (metis (no_types, lifting) diff_zero length_map length_upt map_fst_zip map_of_eq_None_iff not_None_eq set_map)

lemma cmps_index_SomeD:
  "cmps_index cmps k = Some j \<Longrightarrow> j < length cmps \<and> cmps_IDs cmps ! j = k"
  unfolding cmps_index_def cmps_IDs_def
  by (auto dest!: map_of_SomeD simp: in_set_zip)

lemma foldM_set_coeff:
  "fst ` set kvs \<subseteq> set (cmps_IDs cmps) \<Longrightarrow>
   \<exists>row. foldM (set_coeff cmps) kvs stch = Inr row \<and> length row = length stch \<and>
      (\<forall>j<length cmps. cmps_IDs cmps ! j \<notin> fst ` set kvs \<longrightarrow> row ! j = stch ! j)"
proof (induction kvs arbitrary: stch)
  case Nil then show ?case by simp
next
  case (Cons kv kvs)
  from Cons.prems obtain j where j: "cmps_index cmps (fst kv) = Some j"
    using cmps_index_Some by fastforce
  from Cons.prems have sub: "fst ` set kvs \<subseteq> set (cmps_IDs cmps)" by auto
  from Cons.IH[OF sub, of "stch[j := snd kv]"] obtain row where
    row: "foldM (set_coeff cmps) kvs (stch[j := snd kv]) = Inr row"
      "length row = length stch"
      "\<forall>j'<length cmps. cmps_IDs cmps ! j' \<notin> fst ` set kvs \<longrightarrow> row ! j' = stch[j := snd kv] ! j'"
    by auto
  have "\<forall>j'<length cmps. cmps_IDs cmps ! j' \<notin> fst ` set (kv # kvs) \<longrightarrow> row ! j' = stch ! j'"
  proof (intro allI impI)
    fix j' assume a: "j' < length cmps" "cmps_IDs cmps ! j' \<notin> fst ` set (kv # kvs)"
    then have "j' \<noteq> j" using cmps_index_SomeD[OF j] by auto
    with row(3) a show "row ! j' = stch ! j'" by auto
  qed
  moreover have "set_coeff cmps kv stch = Inr (stch[j := snd kv])"
    using j by (simp add: set_coeff_def)
  ultimately show ?case using row(1,2) by simp
qed

lemma keys_Process_stoichiometry:
  "fst ` set (Process_stoichiometry p) \<subseteq> set (cmps_IDs (p_components p))"
proof -
  have "fst ` set (Process_stoichiometry p)
          \<subseteq> fst ` set (dict_of (zip (cmps_IDs (p_components p)) (coeffs (p_stoichiometry p))))"
    by (auto simp: Process_stoichiometry_def)
  also have "\<dots> \<subseteq> set (cmps_IDs (p_components p))"
    by (auto simp: fst_dict_of dest: set_zip_leftD)
  finally show ?thesis .
qed

lemma stch_row_ok:
  assumes "set (cmps_IDs (p_components p)) \<subseteq> set (cmps_IDs cmps)"
  shows "\<exists>row. stch_row cmps p = Inr row \<and> length row = length cmps \<and>
      (\<forall>j<length cmps. cmps_IDs cmps ! j \<notin> set (cmps_IDs (p_components p)) \<longrightarrow> row ! j = 0)"
proof -
  have sub: "fst ` set (Process_stoichiometry p) \<subseteq> set (cmps_IDs cmps)"
    using keys_Process_stoichiometry assms by blast
  from foldM_set_coeff[OF sub, of "replicate (length cmps) 0"]
  obtain row where row: "foldM (set_coeff cmps) (Process_stoichiometry p) (replicate (length cmps) 0) = Inr row"
     "length row = length cmps"
     "\<forall>j<length cmps. cmps_IDs cmps ! j \<notin> fst ` set (Process_stoichiometry p) \<longrightarrow> row ! j = replicate (length cmps) 0 ! j"
    by auto
  have "\<forall>j<length cmps. cmps_IDs cmps ! j \<notin> set (cmps_IDs (p_components p)) \<longrightarrow> row ! j = 0"
    using row(3) keys_Process_stoichiometry[of p] by auto
  with row show ?thesis by (simp add: stch_row_def)
qed

subsection \<open>The transposed matrix times the rates\<close>

lemma update_fresh: "k \<notin> fst ` set d \<Longrightarrow> AList.update k v d = d @ [(k, v)]"
  by (induction d) auto

lemma dict_update_distinct:
  "distinct (map fst (d @ kvs)) \<Longrightarrow> dict_update d kvs = d @ kvs"
proof (induction kvs arbitrary: d)
  case Nil then show ?case by (simp add: dict_update_def)
next
  case (Cons kv kvs)
  obtain k v where kv: "kv = (k, v)" by (cases kv)
  from Cons.prems have fresh: "k \<notin> fst ` set d" by (auto simp: kv)
  from Cons.prems have "distinct (map fst ((d @ [(k, v)]) @ kvs))" by (auto simp: kv)
  from Cons.IH[OF this] show ?case
    using update_fresh[OF fresh, of v] by (simp add: dict_update_def kv)
qed

lemma dict_of_distinct: "distinct (map fst kvs) \<Longrightarrow> dict_of kvs = kvs"
  using dict_update_distinct[of "[]" kvs] by (simp add: dict_of_def)

lemma sum_list_map2_nth:
  "length xs = n \<Longrightarrow> length ys = n \<Longrightarrow>
   sum_list (map2 (*) xs ys) = (\<Sum>i<n. xs ! i * (ys ! i :: real))"
  by (simp add: sum_list_sum_nth atLeast0LessThan)

lemma mat_vec_transpose_nth:
  assumes "length r = length M" "j < ncols M"
  shows "mat_vec (transpose_m M) r ! j = (\<Sum>i<length M. M ! i ! j * r ! i)"
  using assms by (simp add: mat_vec_def transpose_m_def sum_list_map2_nth[of _ "length M"])

lemma length_mat_vec_transpose: "length (mat_vec (transpose_m M) r) = ncols M"
  by (simp add: mat_vec_def transpose_m_def)

lemma mapM_rows:
  assumes "\<And>q. q \<in> set qs \<Longrightarrow> set (cmps_IDs (p_components q)) \<subseteq> set (cmps_IDs cmps)"
  shows "\<exists>M. mapM (stch_row cmps) qs = Inr M \<and> length M = length qs \<and>
     (\<forall>r\<in>set M. length r = length cmps) \<and>
     (\<forall>i<length qs. \<forall>j<length cmps.
         cmps_IDs cmps ! j \<notin> set (cmps_IDs (p_components (qs ! i))) \<longrightarrow> M ! i ! j = 0)"
  using assms
proof (induction qs)
  case Nil then show ?case by simp
next
  case (Cons q qs)
  from Cons.prems have "set (cmps_IDs (p_components q)) \<subseteq> set (cmps_IDs cmps)" by simp
  from stch_row_ok[OF this] obtain row where row: "stch_row cmps q = Inr row" "length row = length cmps"
    "\<forall>j<length cmps. cmps_IDs cmps ! j \<notin> set (cmps_IDs (p_components q)) \<longrightarrow> row ! j = 0"
    by blast
  from Cons.IH Cons.prems obtain M where M: "mapM (stch_row cmps) qs = Inr M" "length M = length qs"
    "\<forall>r\<in>set M. length r = length cmps"
    "\<forall>i<length qs. \<forall>j<length cmps.
         cmps_IDs cmps ! j \<notin> set (cmps_IDs (p_components (qs ! i))) \<longrightarrow> M ! i ! j = 0"
    by auto
  have "\<forall>i<length (q # qs). \<forall>j<length cmps.
         cmps_IDs cmps ! j \<notin> set (cmps_IDs (p_components ((q # qs) ! i))) \<longrightarrow> (row # M) ! i ! j = 0"
    using row(3) M(4) by (auto simp: nth_Cons split: nat.splits)
  with row M show ?case by simp
qed

lemma merged_covers:
  "q \<in> set qs \<Longrightarrow>
   set (cmps_IDs (p_components q)) \<subseteq> set (cmps_IDs (Components (concat (map p_components qs))))"
  unfolding set_Components_IDs by (auto simp: cmps_IDs_def)

subsection \<open>The dictionary after compilation\<close>

lemma mapM_as_process: "mapM as_process (map snd (map (\<lambda>q. (p_ID q, VProcess q)) qs)) = Inr qs"
  by (induction qs) auto

lemma compile_core:
  assumes nd: "new_dict ps = map (\<lambda>q. (p_ID q, VProcess q)) qs"
  shows "\<exists>d M. CompiledProcesses_compile (new_dict ps) = Inr d
     \<and> mapM (stch_row (Components (concat (map p_components qs)))) qs = Inr M
     \<and> CompiledProcesses_size d = Inr (length qs)
     \<and> CompiledProcesses_components d = Inr (Components (concat (map p_components qs)))
     \<and> (\<exists>m. CompiledProcesses_stoichiometry d = Inr m \<and> rows m = M)
     \<and> CompiledProcesses_rate_equations d = Inr (map p_rate_equation qs)
     \<and> CompiledProcesses_production_rates d =
          Inr (dict_of (zip (cmps_IDs (Components (concat (map p_components qs))))
                 (mat_vec (transpose_m M) (map p_rate_equation qs))))
     \<and> CompiledProcesses_IDs d = Inr (map p_ID qs)
     \<and> map_of d ''_index'' = Some (VIndex (dict_of (zip (map p_ID qs) [0..<length qs])))
     \<and> map_of d ''size'' = Some (VInt (length qs))
     \<and> (\<forall>k. k \<notin> set [''tuple'', ''size'', ''IDs'', ''_index'', ''_components'', ''_parameters'',
                       ''_stoichiometry'', ''_rate_equations'', ''_production_rates'']
            \<longrightarrow> map_of d k = map_of (new_dict ps) k)
     \<and> map_of d ''_parameters''
          = Some (VParams (fold (\<lambda>i ps. dict_update ps (p_parameters i)) qs []))"
proof -
  let ?cmps = "Components (concat (map p_components qs))"
  from mapM_rows[of qs ?cmps] merged_covers obtain M where
    M: "mapM (stch_row ?cmps) qs = Inr M" by blast
  have procs: "mapM as_process (map snd (new_dict ps)) = Inr qs"
    unfolding nd by (rule mapM_as_process)
  let ?d = "AList.update ''_production_rates''
                         (VExprs (mat_vec (transpose_m M) (map p_rate_equation qs)))
                      (AList.update ''_rate_equations'' (VExprs (map p_rate_equation qs))
                      (AList.update ''_stoichiometry''
                         (VMatrix (if list_all is_numeric qs then NDArray2 M else ListOfLists M))
                      (AList.update ''_parameters'' (VParams (fold (\<lambda>i ps. dict_update ps (p_parameters i)) qs []))
                      (AList.update ''_components'' (VComponents ?cmps)
                      (AList.update ''_index'' (VIndex (dict_of (zip (map p_ID qs) [0..<length qs])))
                      (AList.update ''IDs'' (VStrs (map p_ID qs))
                      (AList.update ''size'' (VInt (length qs))
                      (AList.update ''tuple'' (VTuple qs) (new_dict ps)))))))))"
  have c: "CompiledProcesses_compile (new_dict ps) = Inr ?d"
    by (simp add: CompiledProcesses_compile_def procs M Let_def)
  have 1: "CompiledProcesses_size ?d = Inr (length qs)"
    by (simp add: CompiledProcesses_size_def AList.update_conv')
  have 2: "CompiledProcesses_components ?d = Inr ?cmps"
    by (simp add: CompiledProcesses_components_def AList.update_conv')
  have 3: "\<exists>m. CompiledProcesses_stoichiometry ?d = Inr m \<and> rows m = M"
    by (simp add: CompiledProcesses_stoichiometry_def AList.update_conv')
  have 4: "CompiledProcesses_rate_equations ?d = Inr (map p_rate_equation qs)"
    by (simp add: CompiledProcesses_rate_equations_def AList.update_conv')
  have 5: "CompiledProcesses_production_rates ?d =
          Inr (dict_of (zip (cmps_IDs ?cmps) (mat_vec (transpose_m M) (map p_rate_equation qs))))"
    unfolding CompiledProcesses_production_rates_def 2
    by (simp add: AList.update_conv')
  have 6: "CompiledProcesses_IDs ?d = Inr (map p_ID qs)"
    by (simp add: CompiledProcesses_IDs_def AList.update_conv')
  have 7: "map_of ?d ''_index'' = Some (VIndex (dict_of (zip (map p_ID qs) [0..<length qs])))"
    by (simp add: AList.update_conv')
  have 8: "map_of ?d ''size'' = Some (VInt (length qs))"
    by (simp add: AList.update_conv')
  have 9: "\<forall>k. k \<notin> set [''tuple'', ''size'', ''IDs'', ''_index'', ''_components'', ''_parameters'',
                       ''_stoichiometry'', ''_rate_equations'', ''_production_rates'']
            \<longrightarrow> map_of ?d k = map_of (new_dict ps) k"
    by (simp add: AList.update_conv')
  have 10: "map_of ?d ''_parameters''
          = Some (VParams (fold (\<lambda>i ps. dict_update ps (p_parameters i)) qs []))"
    by (simp add: AList.update_conv')
  from c M 1 2 3 4 5 6 7 8 9 10 show ?thesis by blast
qed

subsection \<open>Shape of the compiled matrix\<close>

lemma ncols_rows:
  assumes "\<forall>r\<in>set M. length r = n" "M = [] \<longrightarrow> n = 0"
  shows "ncols M = n"
  using assms by (cases M) (auto simp: ncols_def)

lemma Components_example:
  assumes "cmps_IDs c1 = [A, B]" "cmps_IDs c2 = [B, C]" "distinct [A, B, C]"
  shows "cmps_IDs (Components (c1 @ c2)) = [A, B, C]"
proof -
  from assms(1) obtain a b where c1: "c1 = [a, b]" "cmp_ID a = A" "cmp_ID b = B"
    by (auto simp: cmps_IDs_def)
  from assms(2) obtain b' c where c2: "c2 = [b', c]" "cmp_ID b' = B" "cmp_ID c = C"
    by (auto simp: cmps_IDs_def)
  show ?thesis using assms(3) by (auto simp: c1 c2 Components_def cmps_IDs_def)
qed

lemma new_dict_two:
  "p_ID p1 \<noteq> p_ID p2 \<Longrightarrow> new_dict [p1, p2] = [(p_ID p1, VProcess p1), (p_ID p2, VProcess p2)]"
  by (simp add: new_dict_def)

text \<open>
  Claim C1. Compiling any tuple of processes succeeds, and in the compiled object the
  stoichiometry matrix has \<open>P\<close> rows, one per member process, each of \<open>C\<close> entries, one
  per component of the merged registry; \<open>production_rates\<close> has one entry per component,
  the entry of component \<open>j\<close> being the sum over the processes \<open>i\<close> of the coefficient at
  \<open>(i, j)\<close> times the rate of \<open>i\<close> (the transposed matrix times the vector of rates); and
  \<open>IDs\<close> has length \<open>P\<close>. For two processes with distinct IDs over the registries
  \<open>A, B\<close> and \<open>B, C\<close> the merged registry is \<open>A, B, C\<close> in this order, the matrix is 2 by
  3, and its entries at \<open>(p1, C)\<close> and \<open>(p2, A)\<close> are zero.
\<close>

theorem compile_matrix_shape:
  "\<exists>d P cmps M rates pr ids.
      CompiledProcesses_compile (new_dict ps) = Inr d
    \<and> CompiledProcesses_size d = Inr P
    \<and> CompiledProcesses_components d = Inr cmps
    \<and> CompiledProcesses_stoichiometry d = Inr M
    \<and> CompiledProcesses_rate_equations d = Inr rates
    \<and> CompiledProcesses_production_rates d = Inr pr
    \<and> CompiledProcesses_IDs d = Inr ids
    \<and> P = length (new_dict ps)
    \<and> length (rows M) = P
    \<and> list_all (\<lambda>r. length r = length cmps) (rows M)
    \<and> length pr = length cmps
    \<and> map fst pr = cmps_IDs cmps
    \<and> map snd pr = map (\<lambda>j. \<Sum>i<P. rows M ! i ! j * rates ! i) [0..<length cmps]
    \<and> length ids = P
    \<and> (ps = [p1, p2] \<and> p_ID p1 \<noteq> p_ID p2
         \<and> cmps_IDs (p_components p1) = [A, B] \<and> cmps_IDs (p_components p2) = [B, C]
         \<and> distinct [A, B, C]
        \<longrightarrow> cmps_IDs cmps = [A, B, C] \<and> length (rows M) = 2
          \<and> list_all (\<lambda>r. length r = 3) (rows M)
          \<and> rows M ! 0 ! 2 = 0 \<and> rows M ! 1 ! 0 = 0)"
proof -
  obtain qs where nd: "new_dict ps = map (\<lambda>q. (p_ID q, VProcess q)) qs"
    using new_dict_procs by blast
  let ?cmps = "Components (concat (map p_components qs))"
  let ?rates = "map p_rate_equation qs"
  from compile_core[OF nd] obtain d R m where
    d: "CompiledProcesses_compile (new_dict ps) = Inr d"
    and R: "mapM (stch_row ?cmps) qs = Inr R"
    and sz: "CompiledProcesses_size d = Inr (length qs)"
    and cm: "CompiledProcesses_components d = Inr ?cmps"
    and st: "CompiledProcesses_stoichiometry d = Inr m" "rows m = R"
    and re: "CompiledProcesses_rate_equations d = Inr ?rates"
    and pr: "CompiledProcesses_production_rates d =
          Inr (dict_of (zip (cmps_IDs ?cmps) (mat_vec (transpose_m R) ?rates)))"
    and ids: "CompiledProcesses_IDs d = Inr (map p_ID qs)"
    by blast
  from mapM_rows[of qs ?cmps] merged_covers R have
    lenR: "length R = length qs"
    and rowsR: "\<forall>r\<in>set R. length r = length ?cmps"
    and zeroR: "\<forall>i<length qs. \<forall>j<length ?cmps.
         cmps_IDs ?cmps ! j \<notin> set (cmps_IDs (p_components (qs ! i))) \<longrightarrow> R ! i ! j = 0"
    by auto
  have P: "length qs = length (new_dict ps)" by (simp add: nd)
  have "R = [] \<longrightarrow> length ?cmps = 0" using lenR by (auto simp: Components_Nil)
  with rowsR have nc: "ncols R = length ?cmps" by (rule ncols_rows)
  let ?vec = "mat_vec (transpose_m R) ?rates"
  have lv: "length ?vec = length ?cmps" by (simp add: length_mat_vec_transpose nc)
  have "distinct (map fst (zip (cmps_IDs ?cmps) ?vec))"
    using lv distinct_Components_IDs[of "concat (map p_components qs)"]
    by (simp add: cmps_IDs_def)
  then have dz: "dict_of (zip (cmps_IDs ?cmps) ?vec) = zip (cmps_IDs ?cmps) ?vec"
    by (rule dict_of_distinct)
  have vec: "?vec = map (\<lambda>j. \<Sum>i<length qs. R ! i ! j * ?rates ! i) [0..<length ?cmps]"
  proof (rule nth_equalityI)
    show "length ?vec = length (map (\<lambda>j. \<Sum>i<length qs. R ! i ! j * ?rates ! i) [0..<length ?cmps])"
      by (simp add: lv)
  next
    fix j assume "j < length ?vec"
    then have j: "j < ncols R" by (simp add: lv nc)
    have "?vec ! j = (\<Sum>i<length R. R ! i ! j * ?rates ! i)"
      by (rule mat_vec_transpose_nth) (simp_all add: lenR j)
    then show "?vec ! j = map (\<lambda>j. \<Sum>i<length qs. R ! i ! j * ?rates ! i) [0..<length ?cmps] ! j"
      using j by (simp add: lenR nc)
  qed
  have lp: "length (zip (cmps_IDs ?cmps) ?vec) = length ?cmps"
    by (simp add: lv cmps_IDs_def)
  have fp: "map fst (zip (cmps_IDs ?cmps) ?vec) = cmps_IDs ?cmps"
    by (simp add: lv cmps_IDs_def)
  have sp: "map snd (zip (cmps_IDs ?cmps) ?vec)
      = map (\<lambda>j. \<Sum>i<length qs. rows m ! i ! j * ?rates ! i) [0..<length ?cmps]"
    using vec by (simp add: lv cmps_IDs_def st(2))
  have ex: "cmps_IDs ?cmps = [A, B, C] \<and> length (rows m) = 2
          \<and> list_all (\<lambda>r. length r = 3) (rows m)
          \<and> rows m ! 0 ! 2 = 0 \<and> rows m ! 1 ! 0 = 0"
    if h: "ps = [p1, p2] \<and> p_ID p1 \<noteq> p_ID p2
         \<and> cmps_IDs (p_components p1) = [A, B] \<and> cmps_IDs (p_components p2) = [B, C]
         \<and> distinct [A, B, C]"
  proof -
    from h nd have "map (\<lambda>q. (p_ID q, VProcess q)) qs = [(p_ID p1, VProcess p1), (p_ID p2, VProcess p2)]"
      by (simp add: new_dict_two)
    then have qs: "qs = [p1, p2]" by auto
    have c': "cmps_IDs (Components (p_components p1 @ p_components p2)) = [A, B, C]"
      using h by (simp add: Components_example)
    have "length (cmps_IDs (Components (p_components p1 @ p_components p2))) = 3"
      unfolding c' by simp
    then have l3': "length (Components (p_components p1 @ p_components p2)) = 3"
      by (simp add: cmps_IDs_def)
    have c: "cmps_IDs ?cmps = [A, B, C]" using c' by (simp add: qs)
    have l3: "length ?cmps = 3" using l3' by (simp add: qs)
    have z1: "R ! 0 ! 2 = 0" using zeroR[rule_format, of 0 2] h c' l3' by (auto simp: qs)
    have z2: "R ! 1 ! 0 = 0" using zeroR[rule_format, of 1 0] h c' l3' by (auto simp: qs)
    from c l3 z1 z2 lenR rowsR show ?thesis
      by (simp add: st(2) qs list_all_iff)
  qed
  show ?thesis
    apply (rule exI[of _ d], rule exI[of _ "length qs"], rule exI[of _ ?cmps], rule exI[of _ m],
           rule exI[of _ ?rates], rule exI[of _ "zip (cmps_IDs ?cmps) ?vec"], rule exI[of _ "map p_ID qs"])
    using d sz cm st re pr ids P lenR rowsR lp fp sp ex
    by (simp add: dz list_all_iff)
qed

theorem compile_matrix_shape_witness:
  "(p_ID ex_p1 \<noteq> p_ID ex_p2 \<and> cmps_IDs (p_components ex_p1) = [''A'', ''B'']
     \<and> cmps_IDs (p_components ex_p2) = [''B'', ''C''] \<and> distinct [''A'', ''B'', ''C''])
   \<and> (\<exists>d cmps M pr.
        CompiledProcesses_compile (new_dict [ex_p1, ex_p2]) = Inr d
      \<and> CompiledProcesses_components d = Inr cmps
      \<and> CompiledProcesses_stoichiometry d = Inr M
      \<and> CompiledProcesses_production_rates d = Inr pr
      \<and> cmps_IDs cmps = [''A'', ''B'', ''C'']
      \<and> length (rows M) = 2 \<and> list_all (\<lambda>r. length r = 3) (rows M)
      \<and> rows M ! 0 ! 2 = 0 \<and> rows M ! 1 ! 0 = 0 \<and> length pr = 3)"
proof -
  have h: "p_ID ex_p1 \<noteq> p_ID ex_p2 \<and> cmps_IDs (p_components ex_p1) = [''A'', ''B'']
     \<and> cmps_IDs (p_components ex_p2) = [''B'', ''C''] \<and> distinct [''A'', ''B'', ''C'']"
    by (simp add: ex_p1_def ex_p2_def cmps_IDs_def cmp_A_def cmp_B_def cmp_C_def)
  from compile_matrix_shape[of "[ex_p1, ex_p2]" ex_p1 ex_p2 "''A''" "''B''" "''C''"] h
  obtain d P cmps M rates pr ids where
    "CompiledProcesses_compile (new_dict [ex_p1, ex_p2]) = Inr d"
    "CompiledProcesses_components d = Inr cmps"
    "CompiledProcesses_stoichiometry d = Inr M"
    "CompiledProcesses_production_rates d = Inr pr"
    "length pr = length cmps" "map fst pr = cmps_IDs cmps"
    "cmps_IDs cmps = [''A'', ''B'', ''C'']"
    "length (rows M) = 2" "list_all (\<lambda>r. length r = 3) (rows M)"
    "rows M ! 0 ! 2 = 0" "rows M ! 1 ! 0 = 0"
    by auto
  moreover from this have "length pr = 3"
    by (metis length_map length_Cons list.size(3) numeral_3_eq_3)
  ultimately show ?thesis using h by blast
qed

subsection \<open>The compilation cache\<close>

lemma compile_total: "\<exists>d. CompiledProcesses_compile (new_dict ps) = Inr d"
  using new_dict_procs[of ps] compile_core by blast

lemma setfields_processes:
  "setfields (map VProcess ps) d = Inr (fold (\<lambda>i d. AList.update (p_ID i) (VProcess i) d) ps d)"
  by (induction ps arbitrary: d) auto

lemma Processes_new_processes: "Processes_new (map VProcess ps) = Inr (new_dict ps)"
  by (simp add: Processes_new_def new_dict_def setfields_processes)









subsection \<open>Index lookup\<close>

lemma new_dict_keys_gen:
  "fst ` set (fold (\<lambda>i d. AList.update (p_ID i) (VProcess i) d) ps d) = fst ` set d \<union> p_ID ` set ps"
  by (induction ps arbitrary: d) (auto simp: AList.dom_update)

lemma new_dict_keys: "fst ` set (new_dict ps) = p_ID ` set ps"
  by (simp add: new_dict_def new_dict_keys_gen)

lemma new_dict_distinct_gen:
  "distinct (map fst d) \<Longrightarrow>
   distinct (map fst (fold (\<lambda>i d. AList.update (p_ID i) (VProcess i) d) ps d))"
  by (induction ps arbitrary: d) (auto simp: AList.distinct_update)

lemma new_dict_distinct: "distinct (map fst (new_dict ps))"
  by (simp add: new_dict_def new_dict_distinct_gen)

lemma map_of_zip_upt_SomeD:
  "map_of (zip ids [0..<length ids]) k = Some i \<Longrightarrow> i < length ids \<and> ids ! i = k"
  by (auto dest!: map_of_SomeD simp: in_set_zip)

lemma map_of_zip_upt_None:
  "k \<notin> set ids \<Longrightarrow> map_of (zip ids [0..<length ids]) k = None"
  by (auto simp: map_of_eq_None_iff dest: set_zip_leftD)

lemma map_of_zip_upt_Some:
  assumes "k \<in> set ids"
  shows "\<exists>i. map_of (zip ids [0..<length ids]) k = Some i"
proof -
  have "map fst (zip ids [0..<length ids]) = ids" by simp
  then have "fst ` set (zip ids [0..<length ids]) = set ids" by (metis set_map)
  with assms have "map_of (zip ids [0..<length ids]) k \<noteq> None"
    by (simp add: map_of_eq_None_iff)
  then show ?thesis by blast
qed

lemma getitem_index_member:
  "k \<in> set ids \<Longrightarrow>
   \<exists>i. dict_getitem (zip ids [0..<length ids]) k = Inr i \<and> i < length ids \<and> ids ! i = k"
  using map_of_zip_upt_Some[of k ids] map_of_zip_upt_SomeD[of ids k]
  by (auto simp: dict_getitem_def)

lemma getitem_index_missing:
  "k \<notin> set ids \<Longrightarrow> dict_getitem (zip ids [0..<length ids]) k = Inl (KeyError k)"
  by (simp add: dict_getitem_def map_of_zip_upt_None)

lemma mapM_getitem_all:
  assumes "set ks \<subseteq> set ids"
  shows "\<exists>ns. mapM (dict_getitem (zip ids [0..<length ids])) ks = Inr ns \<and> length ns = length ks \<and>
      (\<forall>k<length ks. ns ! k < length ids \<and> ids ! (ns ! k) = ks ! k)"
proof -
  let ?f = "dict_getitem (zip ids [0..<length ids])"
  have "\<exists>y. ?f x = Inr y" if "x \<in> set ks" for x
    using getitem_index_member[of x ids] that assms by blast
  then obtain ns where ns: "mapM ?f ks = Inr ns" using mapM_total[of ks ?f] by blast
  have len: "length ns = length ks" using ns by (rule mapM_length)
  have "ns ! k < length ids \<and> ids ! (ns ! k) = ks ! k" if k: "k < length ks" for k
  proof -
    from k assms have "ks ! k \<in> set ids" by (meson nth_mem subsetD)
    from getitem_index_member[OF this] obtain i where
      i: "?f (ks ! k) = Inr i" "i < length ids" "ids ! i = ks ! k" by blast
    from mapM_all[OF ns] k have "?f (ks ! k) = Inr (ns ! k)" by blast
    with i show ?thesis by simp
  qed
  with ns len show ?thesis by blast
qed

lemma mapM_getitem_missing:
  "\<not> set ks \<subseteq> set ids \<Longrightarrow>
   mapM (dict_getitem (zip ids [0..<length ids])) ks
     = Inl (KeyError (hd (filter (\<lambda>x. x \<notin> set ids) ks)))"
proof (induction ks)
  case Nil then show ?case by simp
next
  case (Cons k ks)
  show ?case
  proof (cases "k \<in> set ids")
    case True
    with Cons.prems have "\<not> set ks \<subseteq> set ids" by simp
    from Cons.IH[OF this] have ih: "mapM (dict_getitem (zip ids [0..<length ids])) ks
        = Inl (KeyError (hd (filter (\<lambda>x. x \<notin> set ids) ks)))" .
    from getitem_index_member[OF True] obtain i where
      i: "dict_getitem (zip ids [0..<length ids]) k = Inr i" by blast
    show ?thesis using True by (simp add: i ih)
  next
    case False
    then show ?thesis by (simp add: getitem_index_missing)
  qed
qed

text \<open>
  Claim C5. In the object compiled from any tuple of processes, whose \<open>IDs\<close> are the IDs of
  the member processes: \<open>index\<close> of a member ID returns its position in \<open>IDs\<close>, and of any
  other ID raises \<open>UndefinedProcess\<close> carrying that ID; \<open>indices\<close> of member IDs returns
  their positions, and of a list with an ID that is no member raises \<open>UndefinedProcess\<close>
  carrying the first such ID. No lookup miss is a \<open>KeyError\<close>.
\<close>

theorem index_undefined_process:
  "\<exists>d ids. CompiledProcesses_compile (new_dict ps) = Inr d
     \<and> CompiledProcesses_IDs d = Inr ids \<and> set ids = p_ID ` set ps \<and> distinct ids
     \<and> (ID \<in> set ids \<longrightarrow>
          (\<exists>i. CompiledProcesses_index d ID = Inr i \<and> i < length ids \<and> ids ! i = ID))
     \<and> (ID \<notin> set ids \<longrightarrow> CompiledProcesses_index d ID = Inl (UndefinedProcess ID))
     \<and> (set IDs \<subseteq> set ids \<longrightarrow>
          (\<exists>ns. CompiledProcesses_indices d IDs = Inr ns \<and> length ns = length IDs
             \<and> (\<forall>k<length IDs. ns ! k < length ids \<and> ids ! (ns ! k) = IDs ! k)))
     \<and> (\<not> set IDs \<subseteq> set ids \<longrightarrow>
          CompiledProcesses_indices d IDs
            = Inl (UndefinedProcess (hd (filter (\<lambda>x. x \<notin> set ids) IDs))))"
proof -
  obtain qs where nd: "new_dict ps = map (\<lambda>q. (p_ID q, VProcess q)) qs"
    using new_dict_procs by blast
  let ?ids = "map p_ID qs"
  have keys: "map fst (new_dict ps) = ?ids" by (simp add: nd comp_def)
  have dist: "distinct ?ids" using new_dict_distinct[of ps] by (simp add: keys)
  have mem: "set ?ids = p_ID ` set ps" using new_dict_keys[of ps] keys by (metis set_map)
  from compile_core[OF nd] obtain d where
    d: "CompiledProcesses_compile (new_dict ps) = Inr d"
    and ids: "CompiledProcesses_IDs d = Inr ?ids"
    and ix: "map_of d ''_index'' = Some (VIndex (dict_of (zip ?ids [0..<length qs])))"
    by blast
  have "distinct (map fst (zip ?ids [0..<length qs]))" using dist by simp
  then have z: "dict_of (zip ?ids [0..<length qs]) = zip ?ids [0..<length ?ids]"
    by (simp add: dict_of_distinct)
  have 1: "\<exists>i. CompiledProcesses_index d ID = Inr i \<and> i < length ?ids \<and> ?ids ! i = ID"
    if "ID \<in> set ?ids"
    using getitem_index_member[OF that] by (auto simp: CompiledProcesses_index_def ix z)
  have 2: "CompiledProcesses_index d ID = Inl (UndefinedProcess ID)" if "ID \<notin> set ?ids"
    using getitem_index_missing[OF that] by (simp add: CompiledProcesses_index_def ix z)
  have 3: "\<exists>ns. CompiledProcesses_indices d IDs = Inr ns \<and> length ns = length IDs
             \<and> (\<forall>k<length IDs. ns ! k < length ?ids \<and> ?ids ! (ns ! k) = IDs ! k)"
    if "set IDs \<subseteq> set ?ids"
    using mapM_getitem_all[OF that] by (auto simp: CompiledProcesses_indices_def ix z)
  have 4: "CompiledProcesses_indices d IDs
            = Inl (UndefinedProcess (hd (filter (\<lambda>x. x \<notin> set ?ids) IDs)))"
    if "\<not> set IDs \<subseteq> set ?ids"
    using mapM_getitem_missing[OF that] by (simp add: CompiledProcesses_indices_def ix z)
  from d ids mem dist 1 2 3 4 show ?thesis by blast
qed

theorem index_undefined_process_witness:
  "\<exists>d ids. CompiledProcesses_compile (new_dict [ex_p1, ex_p2]) = Inr d
     \<and> CompiledProcesses_IDs d = Inr ids
     \<and> ''p2'' \<in> set ids \<and> ''zz'' \<notin> set ids
     \<and> set [''p2'', ''p1''] \<subseteq> set ids \<and> \<not> set [''p2'', ''zz'', ''p1''] \<subseteq> set ids
     \<and> (\<exists>i. CompiledProcesses_index d ''p2'' = Inr i \<and> i < length ids \<and> ids ! i = ''p2'')
     \<and> CompiledProcesses_index d ''zz'' = Inl (UndefinedProcess ''zz'')
     \<and> (\<exists>ns. CompiledProcesses_indices d [''p2'', ''p1''] = Inr ns \<and> length ns = 2)
     \<and> CompiledProcesses_indices d [''p2'', ''zz'', ''p1''] = Inl (UndefinedProcess ''zz'')"
proof -
  from index_undefined_process[of "[ex_p1, ex_p2]" "''p2''" "[''p2'', ''p1'']"]
  obtain d ids where
    d: "CompiledProcesses_compile (new_dict [ex_p1, ex_p2]) = Inr d"
    and ids: "CompiledProcesses_IDs d = Inr ids" "set ids = p_ID ` set [ex_p1, ex_p2]"
    and a: "''p2'' \<in> set ids \<longrightarrow>
          (\<exists>i. CompiledProcesses_index d ''p2'' = Inr i \<and> i < length ids \<and> ids ! i = ''p2'')"
    and b: "set [''p2'', ''p1''] \<subseteq> set ids \<longrightarrow>
          (\<exists>ns. CompiledProcesses_indices d [''p2'', ''p1''] = Inr ns
             \<and> length ns = length [''p2'', ''p1''])"
    by blast
  from index_undefined_process[of "[ex_p1, ex_p2]" "''zz''" "[''p2'', ''zz'', ''p1'']"] d ids(1)
  have c: "''zz'' \<notin> set ids \<longrightarrow> CompiledProcesses_index d ''zz'' = Inl (UndefinedProcess ''zz'')"
    and e: "\<not> set [''p2'', ''zz'', ''p1''] \<subseteq> set ids \<longrightarrow>
          CompiledProcesses_indices d [''p2'', ''zz'', ''p1'']
            = Inl (UndefinedProcess (hd (filter (\<lambda>x. x \<notin> set ids) [''p2'', ''zz'', ''p1''])))"
    by auto
  have s: "set ids = {''p1'', ''p2''}" using ids(2) by (simp add: ex_p1_def ex_p2_def)
  have m: "''p2'' \<in> set ids" "''zz'' \<notin> set ids" "''p1'' \<in> set ids" by (simp_all add: s)
  have h: "hd (filter (\<lambda>x. x \<notin> set ids) [''p2'', ''zz'', ''p1'']) = ''zz''" using m by simp
  from a b c e m h d ids(1) show ?thesis by auto
qed

subsection \<open>The read-only methods\<close>

text \<open>
  Claim C4. On an object of class \<open>CompiledProcesses\<close>, a call of \<open>append\<close>, \<open>extend\<close> or
  item assignment raises the read-only error, and the object after the call is the object
  before it: its class and its whole \<^verbatim>\<open>__dict__\<close>, hence the member processes, the matrix,
  the index and the parameter table, are unchanged.
\<close>

theorem compiled_rejects_mutation:
  "cls self = CompiledProcesses \<Longrightarrow>
   invoke self c = (Some (ReadOnlyError ''object is read-only''), self)"
  by (cases c) (simp_all add: invoke_def deny_def read_only_methods_def)

theorem compiled_rejects_mutation_witness:
  "\<exists>d. CompiledProcesses_compile (new_dict [ex_p1, ex_p2]) = Inr d
     \<and> cls \<lparr>cls = CompiledProcesses, odict = d\<rparr> = CompiledProcesses
     \<and> invoke \<lparr>cls = CompiledProcesses, odict = d\<rparr> (Append (VProcess ex_p3))
         = (Some (ReadOnlyError ''object is read-only''), \<lparr>cls = CompiledProcesses, odict = d\<rparr>)"
proof -
  from compile_total obtain d where
    d: "CompiledProcesses_compile (new_dict [ex_p1, ex_p2]) = Inr d" by blast
  have c: "cls \<lparr>cls = CompiledProcesses, odict = d\<rparr> = CompiledProcesses" by simp
  from compiled_rejects_mutation[OF c, of "Append (VProcess ex_p3)"] d c show ?thesis by blast
qed

lemma mutable_accepts_append:
  "p_ID p \<notin> fst ` set d \<Longrightarrow>
   invoke \<lparr>cls = Processes, odict = d\<rparr> (Append (VProcess p))
     = (None, \<lparr>cls = Processes, odict = d @ [(p_ID p, VProcess p)]\<rparr>)"
  by (simp add: invoke_def Processes_append_def update_fresh)

subsection \<open>Extending a collection\<close>







subsection \<open>Checking conservation\<close>

lemma get_conversion_factors_raises:
  "Process_get_conversion_factors self as_matrix = Inl (AttributeError ''_conservation_for'')"
  by (simp add: Process_get_conversion_factors_def Process_getattr_def)

lemma check_conservation_numeric:
  "p_stoichiometry self = NDArray v \<Longrightarrow>
   Process_check_conservation self tol = Raised (AttributeError ''_conservation_for'')"
  by (simp add: Process_check_conservation_def get_conversion_factors_raises)

lemma check_conservation_symbolic:
  "p_stoichiometry self = PyList v \<Longrightarrow>
   Process_check_conservation self tol = Raised (RuntimeError
      ''Can only check conservations with numerical stoichiometric coefficients.'')"
  by (simp add: Process_check_conservation_def)

text \<open>
  Claim C3. The claim lets \<open>check_conservation\<close> return normally on a numeric stoichiometry
  that conserves every quantity of \<open>conserved_for\<close>. The process \<open>ex_p1\<close> is such a one:
  its stoichiometry is the array \<open>[-1, 1]\<close>, its quantities are \<open>COD\<close> and \<open>N\<close>, and both
  products of the conversion factors with the stoichiometry are zero. The method raises
  \<open>AttributeError\<close> on it, for the attribute \<open>_conservation_for\<close> that
  \<open>get_conversion_factors\<close> reads and nothing assigns.
\<close>

theorem check_conservation_attribute_error:
  "p_stoichiometry ex_p1 = NDArray [-1, 1]
   \<and> p_conserved_for ex_p1 = [''COD'', ''N'']
   \<and> mapM (cmps_i (p_components ex_p1)) (p_conserved_for ex_p1) = Inr [ [1, 1], [1/2, 1/2] ]
   \<and> mapM (\<lambda>r. dot r [-1, 1]) [ [1, 1], [1/2, 1/2] ] = Inr [0, 0]
   \<and> Process_check_conservation ex_p1 (1 / 10 ^ 8) = Raised (AttributeError ''_conservation_for'')"
  by (simp add: ex_p1_def cmp_A_def cmp_B_def cmps_i_def dot_def
        Process_check_conservation_def get_conversion_factors_raises)

subsection \<open>Changing the reference component\<close>

lemma coeff_at_ref_component:
  "coeff_at (self\<lparr>p_ref_component := r\<rparr>) new_ref = coeff_at self new_ref"
  by (simp add: coeff_at_def split: option.splits)

lemma coeff_at_scaled:
  assumes "coeff_at self new_ref = Inr c" "p_components s' = p_components self"
    "coeffs (p_stoichiometry s') = map (\<lambda>x. x / f) (coeffs (p_stoichiometry self))"
  shows "coeff_at s' new_ref = Inr (c / f)"
  using assms by (auto simp: coeff_at_def split: option.splits if_splits)

lemma coeffs_scaled:
  "coeffs (case st of NDArray v \<Rightarrow> NDArray (map g v) | PyList v \<Rightarrow> PyList (map g v))
     = map g (coeffs st)"
  by (cases st) simp_all

lemma set_ref_component_effect:
  assumes "ref_cmp \<noteq> []" "coeff_at self ref_cmp = Inr c" "c \<noteq> 0"
  shows "Process_set_ref_component self ref_cmp =
     Inr (self\<lparr>p_ref_component := ref_cmp,
            p_stoichiometry :=
                 (case p_stoichiometry self of
                    NDArray v \<Rightarrow> NDArray (map (\<lambda>x. x / \<bar>c\<bar>) v)
                  | PyList v \<Rightarrow> PyList (map (\<lambda>x. x / \<bar>c\<bar>) v)),
            p_rate_equation := p_rate_equation self * (c / \<bar>c\<bar>)\<rparr>)"
proof -
  let ?s = "self\<lparr>p_ref_component := ref_cmp\<rparr>"
  let ?n = "self\<lparr>p_ref_component := ref_cmp,
            p_stoichiometry :=
                 (case p_stoichiometry self of
                    NDArray v \<Rightarrow> NDArray (map (\<lambda>x. x / \<bar>c\<bar>) v)
                  | PyList v \<Rightarrow> PyList (map (\<lambda>x. x / \<bar>c\<bar>) v))\<rparr>"
  have c: "coeff_at ?s ref_cmp = Inr c" using assms(2) by (simp add: coeff_at_ref_component)
  have n: "Process_normalize_stoichiometry ?s ref_cmp = Inr ?n"
    using assms(3) by (simp add: Process_normalize_stoichiometry_def c Let_def)
  have "coeff_at ?n ref_cmp = Inr (c / \<bar>c\<bar>)"
    by (rule coeff_at_scaled[OF assms(2)]) (simp_all add: coeffs_scaled)
  then have r: "Process_normalize_rate_eq ?n ref_cmp
      = Inr (?n\<lparr>p_rate_equation := p_rate_equation self * (c / \<bar>c\<bar>)\<rparr>)"
    by (simp add: Process_normalize_rate_eq_def)
  have "Process_set_ref_component self ref_cmp = Process_normalize_rate_eq ?n ref_cmp"
    unfolding Process_set_ref_component_def n using assms(1) by simp
  also note r
  finally show ?thesis .
qed

lemma set_ref_component_normalized:
  assumes "ref_cmp \<noteq> []" "coeff_at self ref_cmp = Inr c" "c \<noteq> 0"
  shows "\<exists>self' c'. Process_set_ref_component self ref_cmp = Inr self'
     \<and> coeff_at self' ref_cmp = Inr c' \<and> \<bar>c'\<bar> = 1
     \<and> coeffs (p_stoichiometry self') = map (\<lambda>x. x / \<bar>c\<bar>) (coeffs (p_stoichiometry self))
     \<and> p_rate_equation self' = p_rate_equation self * (c / \<bar>c\<bar>)"
proof -
  let ?r = "self\<lparr>p_ref_component := ref_cmp,
            p_stoichiometry :=
                 (case p_stoichiometry self of
                    NDArray v \<Rightarrow> NDArray (map (\<lambda>x. x / \<bar>c\<bar>) v)
                  | PyList v \<Rightarrow> PyList (map (\<lambda>x. x / \<bar>c\<bar>) v)),
            p_rate_equation := p_rate_equation self * (c / \<bar>c\<bar>)\<rparr>"
  have 0: "Process_set_ref_component self ref_cmp = Inr ?r"
    by (rule set_ref_component_effect[OF assms])
  have 3: "coeffs (p_stoichiometry ?r) = map (\<lambda>x. x / \<bar>c\<bar>) (coeffs (p_stoichiometry self))"
    by (simp add: coeffs_scaled)
  have 1: "coeff_at ?r ref_cmp = Inr (c / \<bar>c\<bar>)"
    by (rule coeff_at_scaled[OF assms(2) _ 3]) simp
  have 2: "\<bar>c / \<bar>c\<bar>\<bar> = 1" using assms(3) by simp
  have 4: "p_rate_equation ?r = p_rate_equation self * (c / \<bar>c\<bar>)" by simp
  from 0 1 2 3 4 show ?thesis by blast
qed

text \<open>
  Claim C6. The claim has the rate expression rescaled with the stoichiometry, so that the
  coefficient of every component times the rate stays what it was. The process \<open>ex_p3\<close>
  has the coefficients \<open>[2, -1]\<close> over \<open>A, C\<close> and the rate 3. Setting its reference to
  \<open>A\<close> divides the coefficients by 2, to \<open>[1, -1/2]\<close>, and multiplies the rate by the
  coefficient of \<open>A\<close> read after that division, which is 1: the rate stays 3 and the net
  production falls from \<open>[6, -3]\<close> to \<open>[3, -3/2]\<close>.
\<close>

theorem set_ref_component_rate_not_rescaled:
  "coeff_at ex_p3 ''A'' = Inr 2
   \<and> Process_set_ref_component ex_p3 ''A''
       = Inr (ex_p3\<lparr>p_ref_component := ''A'', p_stoichiometry := NDArray [1, -1/2]\<rparr>)
   \<and> p_rate_equation (ex_p3\<lparr>p_ref_component := ''A'', p_stoichiometry := NDArray [1, -1/2]\<rparr>) = 3
   \<and> net_production ex_p3 = [6, -3]
   \<and> net_production (ex_p3\<lparr>p_ref_component := ''A'', p_stoichiometry := NDArray [1, -1/2]\<rparr>)
       = [3, -3/2]"
proof -
  have c: "coeff_at ex_p3 ''A'' = Inr 2"
    by (simp add: coeff_at_def cmps_index_def cmps_IDs_def ex_p3_def cmp_A_def cmp_C_def upt_rec)
  have "Process_set_ref_component ex_p3 ''A''
       = Inr (ex_p3\<lparr>p_ref_component := ''A'',
            p_stoichiometry :=
                 (case p_stoichiometry ex_p3 of
                    NDArray v \<Rightarrow> NDArray (map (\<lambda>x. x / \<bar>2\<bar>) v)
                  | PyList v \<Rightarrow> PyList (map (\<lambda>x. x / \<bar>2\<bar>) v)),
            p_rate_equation := p_rate_equation ex_p3 * (2 / \<bar>2\<bar>)\<rparr>)"
    by (rule set_ref_component_effect[OF _ c]) simp_all
  then have s: "Process_set_ref_component ex_p3 ''A''
       = Inr (ex_p3\<lparr>p_ref_component := ''A'', p_stoichiometry := NDArray [1, -1/2]\<rparr>)"
    by (simp add: ex_p3_def)
  have r: "p_rate_equation (ex_p3\<lparr>p_ref_component := ''A'', p_stoichiometry := NDArray [1, -1/2]\<rparr>) = 3"
    by (simp add: ex_p3_def)
  have n: "net_production ex_p3 = [6, -3]" by (simp add: net_production_def ex_p3_def)
  have n': "net_production (ex_p3\<lparr>p_ref_component := ''A'', p_stoichiometry := NDArray [1, -1/2]\<rparr>)
       = [3, -3/2]" by (simp add: net_production_def ex_p3_def)
  from c s r n n' show ?thesis by blast
qed

subsection \<open>Subgroups\<close>

lemma Processes_subgroup_raises: "\<exists>e. Processes_subgroup init d IDs = Inl e"
  by (simp add: Processes_subgroup_def Process_call_def Process_required_def split: sum.splits)

lemma setfields_values:
  "setfields vs acc = Inr d \<Longrightarrow> (\<forall>v\<in>snd ` set acc. \<exists>p. v = VProcess p) \<Longrightarrow>
   \<forall>v\<in>snd ` set d. \<exists>p. v = VProcess p"
proof (induction vs arbitrary: acc)
  case Nil then show ?case by simp
next
  case (Cons i vs)
  from Cons.prems(1) obtain p where i: "i = VProcess p" by (cases i) simp_all
  from Cons.prems(1) have s: "setfields vs (AList.update (p_ID p) i acc) = Inr d" by (simp add: i)
  have "set (AList.update (p_ID p) i acc) \<subseteq> insert (p_ID p, i) (set acc)"
    by (induction acc) auto
  with Cons.prems(2) have "\<forall>v\<in>snd ` set (AList.update (p_ID p) i acc). \<exists>q. v = VProcess q"
    using i by fastforce
  from Cons.IH[OF s this] show ?case .
qed

lemma Processes_new_values:
  "Processes_new vs = Inr d \<Longrightarrow> map_of d k = Some v \<Longrightarrow> \<exists>p. v = VProcess p"
proof -
  assume a: "Processes_new vs = Inr d" "map_of d k = Some v"
  from a(1) have "\<forall>v\<in>snd ` set d. \<exists>p. v = VProcess p"
    unfolding Processes_new_def by (rule setfields_values) simp
  moreover from a(2) have "v \<in> snd ` set d" by (force dest: map_of_SomeD)
  ultimately show ?thesis by blast
qed

lemma call0_compile_raises:
  assumes "Processes_new vs = Inr d"
  shows "\<exists>e. Processes_call0 \<lparr>cls = Processes, odict = d\<rparr> ''compile'' = Inl e"
proof (cases "map_of d ''compile''")
  case None
  then show ?thesis
    by (simp add: Processes_call0_def Processes_getattr_def Processes_class_attrs_def)
next
  case (Some v)
  from Processes_new_values[OF assms Some] obtain p where "v = VProcess p" by blast
  with Some show ?thesis by (simp add: Processes_call0_def Processes_getattr_def)
qed

lemma CompiledProcesses_subgroup_raises: "\<exists>e. CompiledProcesses_subgroup self IDs = Inl e"
proof (cases "Processes_getitem (odict self) (KeyIter IDs)")
  case (Inl e)
  then show ?thesis by (simp add: CompiledProcesses_subgroup_def)
next
  case (Inr it)
  show ?thesis
  proof (cases it)
    case (One v)
    then show ?thesis using Inr by (simp add: CompiledProcesses_subgroup_def)
  next
    case (Many vs)
    show ?thesis
    proof (cases "Processes_new vs")
      case (Inl e)
      then show ?thesis using Inr Many by (simp add: CompiledProcesses_subgroup_def)
    next
      case new: (Inr d)
      from call0_compile_raises[OF new] show ?thesis
        using Inr Many new by (simp add: CompiledProcesses_subgroup_def)
    qed
  qed
qed

lemma new_dict_example:
  "new_dict [ex_p1, ex_p2] = [(''p1'', VProcess ex_p1), (''p2'', VProcess ex_p2)]"
proof -
  have "p_ID ex_p1 \<noteq> p_ID ex_p2" "p_ID ex_p1 = ''p1''" "p_ID ex_p2 = ''p2''"
    by (simp_all add: ex_p1_def ex_p2_def)
  then show ?thesis using new_dict_two[of ex_p1 ex_p2] by simp
qed

lemma compile_example_member:
  "\<exists>d. CompiledProcesses_compile (new_dict [ex_p1, ex_p2]) = Inr d
     \<and> map_of d ''p1'' = Some (VProcess ex_p1) \<and> map_of d ''size'' = Some (VInt 2)"
proof -
  have nd: "new_dict [ex_p1, ex_p2] = map (\<lambda>q. (p_ID q, VProcess q)) [ex_p1, ex_p2]"
    by (simp add: new_dict_example) (simp add: ex_p1_def ex_p2_def)
  from compile_core[OF nd] obtain d where
    d: "CompiledProcesses_compile (new_dict [ex_p1, ex_p2]) = Inr d"
    and sz: "map_of d ''size'' = Some (VInt (length [ex_p1, ex_p2]))"
    and k: "\<forall>k. k \<notin> set [''tuple'', ''size'', ''IDs'', ''_index'', ''_components'', ''_parameters'',
                       ''_stoichiometry'', ''_rate_equations'', ''_production_rates'']
            \<longrightarrow> map_of d k = map_of (new_dict [ex_p1, ex_p2]) k"
    by blast
  from k have "map_of d ''p1'' = map_of (new_dict [ex_p1, ex_p2]) ''p1''" by simp
  then have "map_of d ''p1'' = Some (VProcess ex_p1)" by (simp add: new_dict_example)
  with d sz show ?thesis by auto
qed

text \<open>
  Claim C7. The claim lets \<open>subgroup\<close> return the collection of the named processes. For
  the collection of \<open>ex_p1\<close> and \<open>ex_p2\<close> and the single member ID \<open>p1\<close>,
  \<open>Processes.subgroup\<close> passes the list of processes to \<open>Process\<close>, whose constructor
  misses two required arguments, and raises \<open>TypeError\<close>; \<open>CompiledProcesses.subgroup\<close> on
  the compiled collection builds the new \<open>Processes\<close> and calls \<open>compile\<close> on it, a method
  the class does not have (it has \<open>mycompile\<close>), and raises \<open>AttributeError\<close>.
\<close>

theorem subgroup_of_member_fails:
  "Processes_subgroup init (new_dict [ex_p1, ex_p2]) [''p1'']
     = Inl (TypeError ''__init__() missing required positional arguments'')
   \<and> (\<exists>d. CompiledProcesses_compile (new_dict [ex_p1, ex_p2]) = Inr d
        \<and> CompiledProcesses_subgroup \<lparr>cls = CompiledProcesses, odict = d\<rparr> [''p1'']
            = Inl (AttributeError ''compile''))"
proof -
  have 1: "Processes_subgroup init (new_dict [ex_p1, ex_p2]) [''p1'']
     = Inl (TypeError ''__init__() missing required positional arguments'')"
    by (simp add: Processes_subgroup_def new_dict_example Processes_getattr_def Process_call_def
          Process_required_def)
  from compile_example_member obtain d where
    d: "CompiledProcesses_compile (new_dict [ex_p1, ex_p2]) = Inr d"
    and m: "map_of d ''p1'' = Some (VProcess ex_p1)" by blast
  have g: "Processes_getitem d (KeyIter [''p1'']) = Inr (Many [VProcess ex_p1])"
    by (simp add: Processes_getitem_def dict_getitem_def m)
  have n: "Processes_new [VProcess ex_p1] = Inr [(''p1'', VProcess ex_p1)]"
    by (simp add: Processes_new_def ex_p1_def)
  have c: "Processes_call0 \<lparr>cls = Processes, odict = [(''p1'', VProcess ex_p1)]\<rparr> ''compile''
      = Inl (AttributeError ''compile'')"
    by (simp add: Processes_call0_def Processes_getattr_def Processes_class_attrs_def)
  have "CompiledProcesses_subgroup \<lparr>cls = CompiledProcesses, odict = d\<rparr> [''p1'']
            = Inl (AttributeError ''compile'')"
    by (simp add: CompiledProcesses_subgroup_def g n c)
  with 1 d show ?thesis by blast
qed

subsection \<open>Copying a compiled collection\<close>

lemma getattr_ID_cases: "getattr_ID v = Inl (AttributeError ''ID'') \<or> (\<exists>p. v = VProcess p)"
  by (cases v) simp_all

lemma setfields_fails:
  "v \<in> set vs \<Longrightarrow> \<forall>p. v \<noteq> VProcess p \<Longrightarrow> setfields vs acc = Inl (AttributeError ''ID'')"
proof (induction vs arbitrary: acc)
  case Nil then show ?case by simp
next
  case (Cons i vs)
  from getattr_ID_cases[of i] show ?case
  proof
    assume "getattr_ID i = Inl (AttributeError ''ID'')"
    then show ?thesis by simp
  next
    assume "\<exists>p. i = VProcess p"
    then obtain p where i: "i = VProcess p" by blast
    with Cons.prems have "v \<in> set vs" by auto
    from Cons.IH[OF this Cons.prems(2)] show ?thesis by (simp add: i)
  qed
qed

lemma copy_raises_of_size:
  assumes "map_of (odict self) ''size'' = Some (VInt n)"
  shows "CompiledProcesses_copy self = Inl (AttributeError ''ID'')"
proof -
  from assms have "VInt n \<in> set (Processes_iter self)"
    by (force simp: Processes_iter_def dest: map_of_SomeD)
  then have "Processes_new (Processes_iter self) = Inl (AttributeError ''ID'')"
    unfolding Processes_new_def by (rule setfields_fails) simp
  then show ?thesis by (simp add: CompiledProcesses_copy_def)
qed

lemma compile_has_size:
  "CompiledProcesses_compile d0 = Inr d \<Longrightarrow> \<exists>n. map_of d ''size'' = Some (VInt n)"
  by (auto simp: CompiledProcesses_compile_def Let_def AList.update_conv' split: sum.splits)

lemma copy_raises:
  "CompiledProcesses_compile d0 = Inr d \<Longrightarrow>
   CompiledProcesses_copy \<lparr>cls = c, odict = d\<rparr> = Inl (AttributeError ''ID'')"
  using compile_has_size[of d0 d] copy_raises_of_size[of "\<lparr>cls = c, odict = d\<rparr>"] by auto

text \<open>
  Claim C8. The claim lets \<open>copy\<close> return a new compiled object equal to the original. On
  the collection compiled from \<open>ex_p1\<close> and \<open>ex_p2\<close> it raises \<open>AttributeError\<close>:
  \<open>Processes(self)\<close> iterates over all values of the \<^verbatim>\<open>__dict__\<close> of the compiled object,
  and those that \<open>_compile\<close> stored there (the value of \<open>size\<close> is one) have no \<open>ID\<close>.
\<close>

theorem copy_raises_attribute_error:
  "\<exists>d. CompiledProcesses_compile (new_dict [ex_p1, ex_p2]) = Inr d
     \<and> map_of d ''size'' = Some (VInt 2)
     \<and> CompiledProcesses_copy \<lparr>cls = CompiledProcesses, odict = d\<rparr> = Inl (AttributeError ''ID'')"
proof -
  from compile_example_member obtain d where
    d: "CompiledProcesses_compile (new_dict [ex_p1, ex_p2]) = Inr d"
    and sz: "map_of d ''size'' = Some (VInt 2)" by blast
  have "CompiledProcesses_copy \<lparr>cls = CompiledProcesses, odict = d\<rparr> = Inl (AttributeError ''ID'')"
    by (rule copy_raises_of_size[of _ 2]) (simp add: sz)
  with d sz show ?thesis by blast
qed

subsection \<open>Setting the parameters of PM2\<close>

lemma compile_has_params:
  "CompiledProcesses_compile d0 = Inr d \<Longrightarrow> \<exists>t. map_of d ''_parameters'' = Some (VParams t)"
  by (auto simp: CompiledProcesses_compile_def Let_def AList.update_conv' split: sum.splits)

lemma compiled_has_table:
  "CompiledProcesses_compile d0 = Inr d \<Longrightarrow>
   \<exists>v t. map_of d ''_parameters'' = Some v \<and> params_table v = Inr t"
  using compile_has_params[of d0 d] by (auto simp: params_table_def)




lemma set_parameters_effect:
  assumes "map_of d ''_parameters'' = Some v" "params_table v = Inr t"
  shows "(\<exists>name. fst (PM2_set_parameters d parameters) = Some (AttributeError name))
     \<and> map_of (snd (PM2_set_parameters d parameters)) ''_parameters''
         = Some (VValues (update_table t (filter (\<lambda>(k, v). k \<in> set stoichio_params) parameters)))
     \<and> (\<forall>k. k \<noteq> ''_parameters'' \<and> k \<noteq> ''_stoichio_lambdified''
           \<longrightarrow> map_of (snd (PM2_set_parameters d parameters)) k = map_of d k)"
  using assms
  by (auto simp: PM2_set_parameters_def Let_def AList.update_conv' PM2_Th_Q_N_min_def
        PM2_Th_Q_P_min_def matrix_loc_def rate_function_set_param_def
        CompiledProcesses_stoichiometry_def
      split: option.splits sum.splits pyval.splits)

lemma set_parameters_keeps_table:
  assumes "map_of d ''_parameters'' = Some v" "params_table v = Inr t"
  shows "\<exists>v' t'. map_of (snd (PM2_set_parameters d parameters)) ''_parameters'' = Some v'
     \<and> params_table v' = Inr t'"
  using set_parameters_effect[OF assms, of parameters] by (auto simp: params_table_def)








end
